theory Spec2Isabelle
  imports Complex_Main "HOL-Library.Word" "HOL-Library.Monad_Syntax"
begin

text \<open>
  A shallow embedding of the input and control core of the car stereo firmware: the
  threshold decoder of the button ladder and the quadrature decoder of the rotary encoder
  (buttons.c), and the mode state machine with its persistence (car_stereo_state.c).
  Each C function is a HOL function of the same name on an explicit state: the module's
  globals are a record, an operation returns the new record together with the list of
  things it did to its collaborators (display, audio stack, store, callbacks), and what a
  collaborator answers is a parameter. The first part holds the model, the second part the
  properties.
\<close>

section \<open>Input events (buttons.h)\<close>

type_synonym u8 = "8 word"
type_synonym u32 = "32 word"

datatype button_id =
    BTN_ROTARY
  | BTN_BAND_UM
  | BTN_BAND_VF
  | BTN_STATION_1
  | BTN_STATION_2
  | BTN_STATION_3
  | BTN_STATION_4
  | BTN_STATION_5
  | BTN_DOWN
  | BTN_UP
  | BTN_NONE

datatype button_event_type =
    BTN_EVENT_PRESS
  | BTN_EVENT_RELEASE
  | BTN_EVENT_LONG_PRESS
  | BTN_EVENT_RELEASE_AFTER_LONG
  | BTN_EVENT_REPEAT
  | BTN_EVENT_ROTARY_CW
  | BTN_EVENT_ROTARY_CCW

text \<open>
  \<^verbatim>\<open>button_event_t\<close>. No producer in buttons.c sets the timestamp: every event is built
  with a designated initialiser naming only \<^verbatim>\<open>.button\<close> and \<^verbatim>\<open>.event\<close>, which leaves it 0.
\<close>

record button_event =
  button :: button_id
  event :: button_event_type
  timestamp :: u32

definition mk_event :: "button_id \<Rightarrow> button_event_type \<Rightarrow> button_event" where
  "mk_event b t = \<lparr>button = b, event = t, timestamp = 0\<rparr>"

section \<open>Threshold button decoder (buttons.c)\<close>

definition button_thresholds :: "int list" where
  "button_thresholds = [201, 346, 757, 1425, 2204, 2830, 3450, 3920, 4095]"

definition THRESHOLD_TOLERANCE :: int where "THRESHOLD_TOLERANCE = 40"
definition NUM_BUTTONS :: nat where "NUM_BUTTONS = 9"
definition ADC_SAMPLES :: nat where "ADC_SAMPLES = 4"

text \<open>C's \<^verbatim>\<open>/\<close> on \<^verbatim>\<open>int\<close> truncates towards zero.\<close>

definition c_div :: "int \<Rightarrow> int \<Rightarrow> int" where
  "c_div a b = sgn a * sgn b * (\<bar>a\<bar> div \<bar>b\<bar>)"

text \<open>
  The averaging loop of \<^verbatim>\<open>adc_read_button\<close>. The ADC is the function \<open>adc\<close>: the
  outcome of the \<open>i\<close>-th call of \<^verbatim>\<open>adc_oneshot_read\<close>, \<open>None\<close> when the driver does not
  return \<^verbatim>\<open>ESP_OK\<close> (the sample is then left out of the sum, but still divides it).
\<close>

fun adc_sum_loop :: "(nat \<Rightarrow> int option) \<Rightarrow> nat \<Rightarrow> nat \<Rightarrow> int \<Rightarrow> int" where
  "adc_sum_loop adc i 0 adc_sum = adc_sum"
| "adc_sum_loop adc i (Suc n) adc_sum =
     adc_sum_loop adc (Suc i) n
       (case adc i of Some reading \<Rightarrow> adc_sum + reading | None \<Rightarrow> adc_sum)"

text \<open>
  The threshold-matching loop that follows the second \<^verbatim>\<open>return BTN_NONE;\<close> in the source.
  Button \<open>i + 1\<close> of the enumeration is the \<open>i\<close>-th ladder button.
\<close>

definition ladder_buttons :: "button_id list" where
  "ladder_buttons = [BTN_BAND_UM, BTN_BAND_VF, BTN_STATION_1, BTN_STATION_2, BTN_STATION_3,
     BTN_STATION_4, BTN_STATION_5, BTN_DOWN, BTN_UP]"

fun find_matching_button :: "int \<Rightarrow> (int \<times> button_id) list \<Rightarrow> button_id" where
  "find_matching_button adc_reading [] = BTN_NONE"
| "find_matching_button adc_reading ((threshold, b) # rest) =
     (if adc_reading \<ge> threshold - THRESHOLD_TOLERANCE \<and>
         adc_reading \<le> threshold + THRESHOLD_TOLERANCE
      then b else find_matching_button adc_reading rest)"

text \<open>
  \<^verbatim>\<open>adc_read_button\<close>, statement by statement. After the noise-floor test the source has an
  unconditional \<^verbatim>\<open>return BTN_NONE;\<close>; the matching loop behind it is never entered, so it
  does not occur in the value of the function.
\<close>

definition adc_read_button :: "(nat \<Rightarrow> int option) \<Rightarrow> button_id" where
  "adc_read_button adc =
     (let adc_sum = adc_sum_loop adc 0 ADC_SAMPLES 0;
          adc_reading = c_div adc_sum (int ADC_SAMPLES)
      in if adc_reading < 100 then BTN_NONE
         else BTN_NONE)"

text \<open>
  One iteration of the polling loop of \<^verbatim>\<open>adc_button_monitor_task\<close>: the locals that live
  across iterations are the record, \<open>current_button\<close> is what \<^verbatim>\<open>adc_read_button\<close> returned
  and \<open>now\<close> the tick time in milliseconds. \<open>cb\<close> tells whether a callback is registered.
\<close>

record adc_monitor =
  last_button :: button_id
  press_time :: u32
  long_press_sent :: bool
  last_repeat_time :: u32

definition BUTTON_REPEAT_INTERVAL_MS :: u32 where "BUTTON_REPEAT_INTERVAL_MS = 200"

definition deliver :: "bool \<Rightarrow> button_event \<Rightarrow> button_event list" where
  "deliver cb e = (if cb then [e] else [])"

definition adc_button_monitor_step ::
  "bool \<Rightarrow> button_id \<Rightarrow> u32 \<Rightarrow> adc_monitor \<Rightarrow> adc_monitor \<times> button_event list" where
  "adc_button_monitor_step cb current_button now m =
     (if current_button \<noteq> BTN_NONE \<and> current_button \<noteq> last_button m then
        (m\<lparr>press_time := now, last_repeat_time := now, long_press_sent := False,
           last_button := current_button\<rparr>,
         deliver cb (mk_event current_button BTN_EVENT_PRESS))
      else if current_button \<noteq> BTN_NONE \<and> current_button = last_button m then
        (let fire = (\<not> long_press_sent m \<and> now - press_time m \<ge> 1000);
             m1 = (if fire then m\<lparr>long_press_sent := True\<rparr> else m);
             ev1 = (if fire then deliver cb (mk_event current_button BTN_EVENT_LONG_PRESS) else []);
             rep = (long_press_sent m1 \<and> now - last_repeat_time m1 \<ge> BUTTON_REPEAT_INTERVAL_MS);
             m2 = (if rep then m1\<lparr>last_repeat_time := now\<rparr> else m1);
             ev2 = (if rep then deliver cb (mk_event current_button BTN_EVENT_REPEAT) else [])
         in (m2\<lparr>last_button := current_button\<rparr>, ev1 @ ev2))
      else if current_button = BTN_NONE \<and> last_button m \<noteq> BTN_NONE then
        (m\<lparr>last_button := current_button\<rparr>,
         deliver cb (mk_event (last_button m) BTN_EVENT_RELEASE))
      else (m\<lparr>last_button := current_button\<rparr>, []))"

section \<open>Quadrature rotary decoder (buttons.c)\<close>

datatype encoder_state = ENC_STATE_00 | ENC_STATE_01 | ENC_STATE_10 | ENC_STATE_11

fun enc_index :: "encoder_state \<Rightarrow> nat" where
  "enc_index ENC_STATE_00 = 0"
| "enc_index ENC_STATE_01 = 1"
| "enc_index ENC_STATE_10 = 2"
| "enc_index ENC_STATE_11 = 3"

definition DEBOUNCE_MS :: u32 where "DEBOUNCE_MS = 50"
definition ROTARY_DEBOUNCE_MS :: u32 where "ROTARY_DEBOUNCE_MS = 5"
definition LONG_PRESS_THRESHOLD_MS :: u32 where "LONG_PRESS_THRESHOLD_MS = 1000"

definition rotary_transition_table :: "int list list" where
  "rotary_transition_table =
     [[0, -1, 1, 0],
      [1, 0, 0, -1],
      [-1, 0, 0, 1],
      [0, 1, -1, 0]]"

definition transition :: "encoder_state \<Rightarrow> encoder_state \<Rightarrow> int" where
  "transition old new = rotary_transition_table ! enc_index old ! enc_index new"

text \<open>
  \<^verbatim>\<open>(encoder_state_t)((clk_state << 1) | dt_state)\<close>; a pin level is \<open>True\<close> for 1.
\<close>

fun phase_pair :: "bool \<Rightarrow> bool \<Rightarrow> encoder_state" where
  "phase_pair False False = ENC_STATE_00"
| "phase_pair False True = ENC_STATE_01"
| "phase_pair True False = ENC_STATE_10"
| "phase_pair True True = ENC_STATE_11"

text \<open>
  The module's volatile globals. \<open>g_callback\<close> is \<open>True\<close> when a callback is registered.
  \<open>g_encoder_position\<close> is an \<^verbatim>\<open>int8_t\<close> that the decoder resets as soon as it reaches 2 or
  -2, so it is modelled as an integer (lemma \<open>isr_position_bounded\<close>).
\<close>

record rotary =
  g_last_rotary_time :: u32
  g_rotary_press_start :: u32
  g_rotary_pressed :: bool
  g_long_press_sent :: bool
  g_encoder_state :: encoder_state
  g_encoder_position :: int
  g_callback :: bool

definition rotary_init :: "bool \<Rightarrow> rotary" where
  "rotary_init cb = \<lparr>g_last_rotary_time = 0, g_rotary_press_start = 0, g_rotary_pressed = False,
     g_long_press_sent = False, g_encoder_state = ENC_STATE_11, g_encoder_position = 0,
     g_callback = cb\<rparr>"

text \<open>
  \<^verbatim>\<open>rotary_encoder_isr\<close>: one firing at tick time \<open>now\<close> (milliseconds, unsigned 32 bit)
  with the three pin levels it reads. The second component lists the events handed to
  \<^verbatim>\<open>send_button_event\<close>, in order.
\<close>

definition rotary_encoder_isr ::
  "u32 \<Rightarrow> bool \<Rightarrow> bool \<Rightarrow> bool \<Rightarrow> rotary \<Rightarrow> rotary \<times> button_event list" where
  "rotary_encoder_isr now sw_state clk_state dt_state r =
     (if now - g_last_rotary_time r < ROTARY_DEBOUNCE_MS then (r, [])
      else if \<not> sw_state \<and> clk_state \<and> dt_state then
        (if \<not> g_rotary_pressed r then
           (r\<lparr>g_rotary_press_start := now, g_rotary_pressed := True,
              g_long_press_sent := False, g_encoder_position := 0\<rparr>, [])
         else (r, []))
      else if sw_state \<and> g_rotary_pressed r \<and> clk_state \<and> dt_state then
        (let press_duration = now - g_rotary_press_start r
         in (r\<lparr>g_rotary_pressed := False\<rparr>,
             if press_duration \<ge> LONG_PRESS_THRESHOLD_MS
               then [mk_event BTN_ROTARY BTN_EVENT_RELEASE_AFTER_LONG]
             else if press_duration > DEBOUNCE_MS
               then [mk_event BTN_ROTARY BTN_EVENT_PRESS]
             else []))
      else
        (let new_state = phase_pair clk_state dt_state;
             direction = transition (g_encoder_state r) new_state;
             r1 = r\<lparr>g_encoder_state := new_state\<rparr>
         in if direction \<noteq> 0 then
              (let r2 = r1\<lparr>g_encoder_position := g_encoder_position r1 + direction,
                            g_last_rotary_time := now\<rparr>
               in if g_encoder_position r2 \<ge> 2 then
                    (r2\<lparr>g_encoder_position := 0\<rparr>, [mk_event BTN_ROTARY BTN_EVENT_ROTARY_CW])
                  else if g_encoder_position r2 \<le> -2 then
                    (r2\<lparr>g_encoder_position := 0\<rparr>, [mk_event BTN_ROTARY BTN_EVENT_ROTARY_CCW])
                  else (r2, []))
            else (r1, [])))"

text \<open>
  One iteration of \<^verbatim>\<open>button_long_press_monitor_task\<close> (after its 100 ms delay), at tick
  time \<open>now\<close>. The event goes to the callback directly, not through the queue.
\<close>

definition button_long_press_monitor_task :: "u32 \<Rightarrow> rotary \<Rightarrow> rotary \<times> button_event list" where
  "button_long_press_monitor_task now r =
     (if g_rotary_pressed r \<and> \<not> g_long_press_sent r then
        (let press_duration = now - g_rotary_press_start r
         in if press_duration \<ge> LONG_PRESS_THRESHOLD_MS then
              (r\<lparr>g_long_press_sent := True\<rparr>,
               deliver (g_callback r) (mk_event BTN_ROTARY BTN_EVENT_LONG_PRESS))
            else (r, []))
      else (r, []))"

section \<open>Runs of the rotary decoder\<close>

text \<open>
  The two contexts that touch the rotary globals: a firing of the interrupt routine, with
  the time and the pin levels it reads (switch, CLK, DT), and an iteration of the
  long-press monitor, with the time it reads.
\<close>

datatype rotary_action = Isr u32 bool bool bool | Monitor u32

fun rotary_step :: "rotary \<Rightarrow> rotary_action \<Rightarrow> rotary \<times> button_event list" where
  "rotary_step r (Isr now sw clk dt) = rotary_encoder_isr now sw clk dt r"
| "rotary_step r (Monitor now) = button_long_press_monitor_task now r"

fun rotary_run :: "rotary \<Rightarrow> rotary_action list \<Rightarrow> rotary \<times> button_event list" where
  "rotary_run r [] = (r, [])"
| "rotary_run r (a # as) =
     (let (r1, ev1) = rotary_step r a; (r2, ev2) = rotary_run r1 as in (r2, ev1 @ ev2))"

text \<open>
  \<open>press_start r a\<close>: in state \<open>r\<close> the action \<open>a\<close> is a firing that takes the
  press-start branch of the routine (not debounced, switch low, both phases high, no
  press in progress).
\<close>

fun press_start :: "rotary \<Rightarrow> rotary_action \<Rightarrow> bool" where
  "press_start r (Isr now sw clk dt) =
     (\<not> now - g_last_rotary_time r < ROTARY_DEBOUNCE_MS \<and> \<not> sw \<and> clk \<and> dt \<and>
      \<not> g_rotary_pressed r)"
| "press_start r (Monitor now) = False"

fun no_press_start :: "rotary \<Rightarrow> rotary_action list \<Rightarrow> bool" where
  "no_press_start r [] = True"
| "no_press_start r (a # as) =
     (\<not> press_start r a \<and> no_press_start (fst (rotary_step r a)) as)"

text \<open>\<open>held r as\<close>: the press is in progress before each of the actions \<open>as\<close>.\<close>

fun held :: "rotary \<Rightarrow> rotary_action list \<Rightarrow> bool" where
  "held r [] = True"
| "held r (a # as) = (g_rotary_pressed r \<and> held (fst (rotary_step r a)) as)"

definition long_presses :: "button_event list \<Rightarrow> nat" where
  "long_presses evs =
     length (filter (\<lambda>e. button e = BTN_ROTARY \<and> event e = BTN_EVENT_LONG_PRESS) evs)"


definition rotations :: "button_event list \<Rightarrow> button_event list" where
  "rotations evs =
     filter (\<lambda>e. event e = BTN_EVENT_ROTARY_CW \<or> event e = BTN_EVENT_ROTARY_CCW) evs"

text \<open>
  The monitor is a task, and the interrupt routine can preempt it. To see that the
  long-press bound does not rest on taking an iteration as one step, the iteration is
  also split where the routine can fire: the test (the reads of the flags and of the
  time) and the report (the callback and the write of the latch). \<open>monitor_decided\<close>
  holds between the two.
\<close>

record preemptible =
  globals :: rotary
  monitor_decided :: bool

datatype fine_action = Fire u32 bool bool bool | Monitor_test u32 | Monitor_report

fun fine_step :: "preemptible \<Rightarrow> fine_action \<Rightarrow> preemptible \<times> button_event list" where
  "fine_step p (Fire now sw clk dt) =
     (p\<lparr>globals := fst (rotary_encoder_isr now sw clk dt (globals p))\<rparr>,
      snd (rotary_encoder_isr now sw clk dt (globals p)))"
| "fine_step p (Monitor_test now) =
     (if \<not> monitor_decided p \<and> g_rotary_pressed (globals p) \<and>
         \<not> g_long_press_sent (globals p) \<and>
         now - g_rotary_press_start (globals p) \<ge> LONG_PRESS_THRESHOLD_MS
      then p\<lparr>monitor_decided := True\<rparr> else p, [])"
| "fine_step p Monitor_report =
     (if monitor_decided p then
        (p\<lparr>globals := (globals p)\<lparr>g_long_press_sent := True\<rparr>, monitor_decided := False\<rparr>,
         deliver (g_callback (globals p)) (mk_event BTN_ROTARY BTN_EVENT_LONG_PRESS))
      else (p, []))"

fun fine_run :: "preemptible \<Rightarrow> fine_action list \<Rightarrow> preemptible \<times> button_event list" where
  "fine_run p [] = (p, [])"
| "fine_run p (a # as) =
     (let (p1, ev1) = fine_step p a; (p2, ev2) = fine_run p1 as in (p2, ev1 @ ev2))"

fun fine_press_start :: "preemptible \<Rightarrow> fine_action \<Rightarrow> bool" where
  "fine_press_start p (Fire now sw clk dt) = press_start (globals p) (Isr now sw clk dt)"
| "fine_press_start p a = False"

fun fine_no_press_start :: "preemptible \<Rightarrow> fine_action list \<Rightarrow> bool" where
  "fine_no_press_start p [] = True"
| "fine_no_press_start p (a # as) =
     (\<not> fine_press_start p a \<and> fine_no_press_start (fst (fine_step p a)) as)"

definition fine_budget :: "preemptible \<Rightarrow> nat" where
  "fine_budget p =
     (if monitor_decided p then 1 else if g_long_press_sent (globals p) then 0 else 1)"

section \<open>Mode state machine: data (car_stereo_state.h)\<close>

datatype stereo_mode = MODE_OFF | MODE_RADIO | MODE_BLUETOOTH | MODE_PHONE_CALL | MODE_PHONEBOOK

datatype display_notification_type =
    DISPLAY_RADIO_STATION
  | DISPLAY_RADIO_SONG
  | DISPLAY_BT_TRACK
  | DISPLAY_BT_ARTIST
  | DISPLAY_BT_ALBUM
  | DISPLAY_CALL_INCOMING
  | DISPLAY_CALL_ACTIVE
  | DISPLAY_PHONEBOOK_CONTACT
  | DISPLAY_VOLUME
  | DISPLAY_FREQUENCY
  | DISPLAY_MODE_CHANGE

datatype radio_band = RADIO_BAND_FM | RADIO_BAND_AM

text \<open>
  The text of a notification. The source formats numbers with \<^verbatim>\<open>snprintf\<close>; the model
  keeps the format and its arguments apart instead of printing digits:
  \<open>Text_d\<close> is \<^verbatim>\<open>"%d"\<close>, \<open>Text_mhz\<close> is \<^verbatim>\<open>"%.1f MHz"\<close>, \<open>Text_station\<close> is
  \<^verbatim>\<open>"Station %d: %.1f MHz"\<close> and \<open>Text_station_saved\<close> is \<^verbatim>\<open>"Station %d Saved"\<close>.
\<close>

datatype display_text =
    Text string
  | Text_d u8
  | Text_mhz real
  | Text_station nat real
  | Text_station_saved nat

record display_notification =
  n_type :: display_notification_type
  n_text :: display_text
  n_subtext :: string
  duration_ms :: nat
  priority :: nat

text \<open>
  The structures of the header, with the fields the modelled functions read or write.
  A \<^verbatim>\<open>float\<close> is modelled as a real number: rounding is not represented, and no property
  below depends on it. \<open>preset_freq b i\<close> is \<^verbatim>\<open>preset_freq[b][i]\<close>; the C array has the
  slots 0 to 4 of each band, and only those are read or written.
\<close>

record radio_state =
  frequency :: real
  radio_volume :: u8
  band :: radio_band
  preset_freq :: "radio_band \<Rightarrow> nat \<Rightarrow> real"

record a2dp_state =
  a2dp_volume :: u8
  playing :: bool

record hfp_state =
  speaker_volume :: u8
  mic_volume :: u8
  call_active :: bool

text \<open>\<^verbatim>\<open>stereo_config_t\<close>: a field is \<open>True\<close> when the function pointer is not null.\<close>

record stereo_config =
  display_handler :: bool
  on_mode_change :: bool

text \<open>
  The key-value store behind \<^verbatim>\<open>nvs_get_*\<close> and \<^verbatim>\<open>nvs_set_*\<close>: one optional value per
  key of the namespace, \<open>None\<close> for a key that was never written. \<open>nvs_preset b i\<close> is the
  key \<^verbatim>\<open>preset_fm_<i+1>\<close> or \<^verbatim>\<open>preset_am_<i+1>\<close>, and \<open>nvs_bt_dev i\<close> the key \<^verbatim>\<open>bt_dev_<i>\<close>,
  whose value is the 9-byte blob \<^verbatim>\<open>save_bt_device_settings\<close> packs: the 6 bytes of the
  address, then the A2DP, HFP speaker and HFP microphone volume.
\<close>

type_synonym bt_blob = "u8 list \<times> u8 \<times> u8 \<times> u8"

record nvs_store =
  nvs_power_on :: "u8 option"
  nvs_mode :: "u8 option"
  nvs_radio_band :: "u8 option"
  nvs_radio_freq :: "u32 option"
  nvs_radio_vol :: "u8 option"
  nvs_a2dp_vol :: "u8 option"
  nvs_hfp_spk_vol :: "u8 option"
  nvs_hfp_mic_vol :: "u8 option"
  nvs_preset :: "radio_band \<Rightarrow> nat \<Rightarrow> u32 option"
  nvs_bt_dev_cnt :: "u8 option"
  nvs_bt_dev :: "nat \<Rightarrow> bt_blob option"

definition nvs_empty :: nvs_store where
  "nvs_empty = \<lparr>nvs_power_on = None, nvs_mode = None, nvs_radio_band = None,
     nvs_radio_freq = None, nvs_radio_vol = None, nvs_a2dp_vol = None, nvs_hfp_spk_vol = None,
     nvs_hfp_mic_vol = None, nvs_preset = (\<lambda>b i. None), nvs_bt_dev_cnt = None,
     nvs_bt_dev = (\<lambda>i. None)\<rparr>"

text \<open>
  \<^verbatim>\<open>bt_device_settings_t\<close>, an entry of the table of known Bluetooth devices. An address
  is the list of its 6 bytes.
\<close>

record bt_device_settings =
  mac_addr :: "u8 list"
  dev_a2dp_volume :: u8
  dev_hfp_speaker_volume :: u8
  dev_hfp_mic_volume :: u8
  valid :: bool

definition MAX_BT_DEVICES :: nat where
  "MAX_BT_DEVICES = 5"

text \<open>
  The module's globals. \<open>g_station_tune_timer\<close> is \<open>True\<close> while the handle is not null,
  that is while a tune-timer task is pending. \<open>nvs\<close> is the persistent store, which
  outlives the globals. \<open>g_bt_devices s i\<close> is \<^verbatim>\<open>g_bt_devices[i]\<close>; the C array has the slots 0
  to 4, and only those are read or written. Left out, with the functions that alone use
  them: RDS and track texts and the phonebook state.
\<close>

record stereo =
  g_powered_on :: bool
  g_current_mode :: stereo_mode
  g_mode_before_call :: stereo_mode
  g_mode_before_phonebook :: stereo_mode
  g_radio_state :: radio_state
  g_a2dp_state :: a2dp_state
  g_hfp_state :: hfp_state
  g_config :: stereo_config
  g_current_band :: radio_band
  g_browsing_stations :: bool
  g_browsing_station_idx :: u8
  g_browsing_station_freq :: real
  g_station_tune_timer :: bool
  g_caller_id :: string
  g_voice_recognition_active :: bool
  g_bt_devices :: "nat \<Rightarrow> bt_device_settings"
  g_current_bt_device_mac :: "u8 list"
  nvs :: nvs_store

text \<open>
  Calls into the audio stack (\<^verbatim>\<open>a2dpSinkHfpHf_*\<close>, \<^verbatim>\<open>bt_volume_control_init\<close>) and the
  other things an operation does besides changing the globals, in the order it does them.
\<close>

datatype audio_cmd =
    Set_a2dp_volume u8
  | Set_hfp_speaker_volume u8
  | Set_hfp_mic_volume u8
  | Avrc_play
  | Avrc_pause
  | Avrc_next
  | Avrc_prev
  | Answer_call
  | Hangup_call
  | Start_voice_recognition
  | Stop_voice_recognition
  | Bt_volume_control_init u8 u8 u8

datatype effect =
    Display display_notification
  | Audio audio_cmd
  | Mode_change stereo_mode stereo_mode
  | Nvs_commit

text \<open>
  What the collaborators answer during one operation: whether \<^verbatim>\<open>nvs_open\<close> returns
  \<^verbatim>\<open>ESP_OK\<close> in \<^verbatim>\<open>save_to_nvs\<close> and \<^verbatim>\<open>load_from_nvs\<close>, whether it does in
  \<^verbatim>\<open>save_bt_device_settings\<close> and \<^verbatim>\<open>load_bt_device_settings\<close>, and whether the
  voice-recognition call does.
\<close>

record env =
  nvs_open_ok :: bool
  nvs_open_bt_ok :: bool
  voice_ok :: bool

text \<open>
  Modelled from the spec: the enumeration \<^verbatim>\<open>bt_volume_target_t\<close> is declared in the audio
  component's header, which is not part of the sources; its three enumerators are the
  ones \<^verbatim>\<open>on_bt_volume_changed\<close> names (A2DP, HFP speaker, HFP microphone).
\<close>

datatype bt_volume_target =
    BT_VOLUME_TARGET_A2DP
  | BT_VOLUME_TARGET_HFP_SPEAKER
  | BT_VOLUME_TARGET_HFP_MIC

section \<open>Mode state machine: operations (car_stereo_state.c)\<close>

type_synonym action = "stereo \<Rightarrow> stereo \<times> effect list"

text \<open>Statements in sequence: each runs in the state the previous one left.\<close>

fun do_all :: "action list \<Rightarrow> action" where
  "do_all [] s = (s, [])"
| "do_all (a # as) s =
     (let (s1, fx1) = a s; (s2, fx2) = do_all as s1 in (s2, fx1 @ fx2))"

definition modify :: "(stereo \<Rightarrow> stereo) \<Rightarrow> action" where
  "modify f s = (f s, [])"

definition emit :: "effect list \<Rightarrow> action" where
  "emit fx s = (s, fx)"

subsection \<open>Conversions\<close>

text \<open>
  Conversion of a \<^verbatim>\<open>float\<close> to an unsigned integer truncates towards zero; C leaves it
  undefined when the truncated value does not fit, where the model wraps.
\<close>

definition c_trunc :: "real \<Rightarrow> int" where
  "c_trunc x = (if x \<ge> 0 then \<lfloor>x\<rfloor> else - \<lfloor>- x\<rfloor>)"

definition float_to_u8 :: "real \<Rightarrow> u8" where
  "float_to_u8 x = word_of_int (c_trunc x)"

definition float_to_u32 :: "real \<Rightarrow> u32" where
  "float_to_u32 x = word_of_int (c_trunc x)"

fun mode_code :: "stereo_mode \<Rightarrow> u8" where
  "mode_code MODE_OFF = 0"
| "mode_code MODE_RADIO = 1"
| "mode_code MODE_BLUETOOTH = 2"
| "mode_code MODE_PHONE_CALL = 3"
| "mode_code MODE_PHONEBOOK = 4"

fun band_code :: "radio_band \<Rightarrow> u8" where
  "band_code RADIO_BAND_FM = 0"
| "band_code RADIO_BAND_AM = 1"

text \<open>
  The casts \<^verbatim>\<open>(stereo_mode_t)u8val\<close> and \<^verbatim>\<open>(radio_band_t)u8val\<close> of a stored byte. A byte
  that is no enumerator has no value in the model: loading it is reported as \<open>None\<close>.
\<close>

definition mode_of_code :: "u8 \<Rightarrow> stereo_mode option" where
  "mode_of_code c =
     (if c = 0 then Some MODE_OFF else if c = 1 then Some MODE_RADIO
      else if c = 2 then Some MODE_BLUETOOTH else if c = 3 then Some MODE_PHONE_CALL
      else if c = 4 then Some MODE_PHONEBOOK else None)"

definition band_of_code :: "u8 \<Rightarrow> radio_band option" where
  "band_of_code c =
     (if c = 0 then Some RADIO_BAND_FM else if c = 1 then Some RADIO_BAND_AM else None)"

fun station_index :: "button_id \<Rightarrow> nat option" where
  "station_index BTN_STATION_1 = Some 0"
| "station_index BTN_STATION_2 = Some 1"
| "station_index BTN_STATION_3 = Some 2"
| "station_index BTN_STATION_4 = Some 3"
| "station_index BTN_STATION_5 = Some 4"
| "station_index b = None"

subsection \<open>Persistence\<close>

text \<open>
  \<^verbatim>\<open>save_to_nvs\<close> and \<^verbatim>\<open>load_from_nvs\<close> do nothing to the store or take the defaults when
  \<^verbatim>\<open>nvs_open\<close> fails. The source does not look at the results of the single
  \<^verbatim>\<open>nvs_set_*\<close> calls; in the model every key is written once the namespace is open, and
  \<^verbatim>\<open>nvs_get_*\<close> succeeds exactly for a key that is present.
\<close>

definition save_to_nvs :: "env \<Rightarrow> action" where
  "save_to_nvs e s =
     (if nvs_open_ok e then
        (s\<lparr>nvs := (nvs s)\<lparr>
            nvs_power_on := Some (if g_powered_on s then 1 else 0),
            nvs_mode := Some (mode_code (g_current_mode s)),
            nvs_radio_band := Some (band_code (g_current_band s)),
            nvs_radio_freq := Some (float_to_u32 (frequency (g_radio_state s) * 100)),
            nvs_radio_vol := Some (radio_volume (g_radio_state s)),
            nvs_a2dp_vol := Some (a2dp_volume (g_a2dp_state s)),
            nvs_hfp_spk_vol := Some (speaker_volume (g_hfp_state s)),
            nvs_hfp_mic_vol := Some (mic_volume (g_hfp_state s)),
            nvs_preset := (\<lambda>b i. if i < 5
               then Some (float_to_u32 (preset_freq (g_radio_state s) b i * 100))
               else nvs_preset (nvs s) b i)\<rparr>\<rparr>,
         [Nvs_commit])
      else (s, []))"

definition or_keep :: "'a option \<Rightarrow> 'a \<Rightarrow> 'a" where
  "or_keep v old = (case v of Some x \<Rightarrow> x | None \<Rightarrow> old)"

definition load_from_nvs :: "env \<Rightarrow> stereo \<Rightarrow> stereo option" where
  "load_from_nvs e s =
     (if nvs_open_ok e then
        do {
          m \<leftarrow> (case nvs_mode (nvs s) of None \<Rightarrow> Some (g_current_mode s)
                | Some c \<Rightarrow> mode_of_code c);
          bnd \<leftarrow> (case nvs_radio_band (nvs s) of None \<Rightarrow> Some None
                | Some c \<Rightarrow> map_option Some (band_of_code c));
          Some (s\<lparr>
            g_powered_on := or_keep (map_option (\<lambda>v. v \<noteq> 0) (nvs_power_on (nvs s))) (g_powered_on s),
            g_current_mode := m,
            g_current_band := or_keep bnd (g_current_band s),
            g_radio_state := (g_radio_state s)\<lparr>
              band := or_keep bnd (band (g_radio_state s)),
              frequency := or_keep (map_option (\<lambda>v. real (unat v) / 100) (nvs_radio_freq (nvs s)))
                             (frequency (g_radio_state s)),
              radio_volume := or_keep (nvs_radio_vol (nvs s)) (radio_volume (g_radio_state s)),
              preset_freq := (\<lambda>b i. if i < 5
                 then or_keep (map_option (\<lambda>v. real (unat v) / 100) (nvs_preset (nvs s) b i))
                        (preset_freq (g_radio_state s) b i)
                 else preset_freq (g_radio_state s) b i)\<rparr>,
            g_a2dp_state := (g_a2dp_state s)\<lparr>
              a2dp_volume := or_keep (nvs_a2dp_vol (nvs s)) (a2dp_volume (g_a2dp_state s))\<rparr>,
            g_hfp_state := (g_hfp_state s)\<lparr>
              speaker_volume := or_keep (nvs_hfp_spk_vol (nvs s)) (speaker_volume (g_hfp_state s)),
              mic_volume := or_keep (nvs_hfp_mic_vol (nvs s)) (mic_volume (g_hfp_state s))\<rparr>\<rparr>)
        }
      else Some (s\<lparr>g_powered_on := False, g_current_mode := MODE_OFF\<rparr>))"

subsection \<open>Persistence of the Bluetooth device table\<close>

text \<open>
  \<^verbatim>\<open>save_bt_device_settings\<close> writes the blob of every valid slot and the number of valid
  slots; \<^verbatim>\<open>load_bt_device_settings\<close> reads the slots below the stored count (0 when the
  key is absent) and below \<^verbatim>\<open>MAX_BT_DEVICES\<close>, and keeps a slot whose blob is absent. Both
  do nothing when \<^verbatim>\<open>nvs_open\<close> fails.
\<close>

definition save_bt_device_settings :: "env \<Rightarrow> action" where
  "save_bt_device_settings e s =
     (if nvs_open_bt_ok e then
        (s\<lparr>nvs := (nvs s)\<lparr>
            nvs_bt_dev := (\<lambda>i. if i < MAX_BT_DEVICES \<and> valid (g_bt_devices s i)
               then Some (mac_addr (g_bt_devices s i), dev_a2dp_volume (g_bt_devices s i),
                          dev_hfp_speaker_volume (g_bt_devices s i),
                          dev_hfp_mic_volume (g_bt_devices s i))
               else nvs_bt_dev (nvs s) i),
            nvs_bt_dev_cnt := Some (of_nat (length
               (filter (\<lambda>i. valid (g_bt_devices s i)) [0..<MAX_BT_DEVICES])))\<rparr>\<rparr>,
         [Nvs_commit])
      else (s, []))"

definition load_bt_device_settings :: "env \<Rightarrow> action" where
  "load_bt_device_settings e s =
     (if nvs_open_bt_ok e then
        (let count = or_keep (nvs_bt_dev_cnt (nvs s)) 0 in
         (s\<lparr>g_bt_devices := (\<lambda>i. if i < MAX_BT_DEVICES \<and> i < unat count then
              (case nvs_bt_dev (nvs s) i of
                 Some (mac, a, sp, m) \<Rightarrow>
                   \<lparr>mac_addr = mac, dev_a2dp_volume = a, dev_hfp_speaker_volume = sp,
                    dev_hfp_mic_volume = m, valid = True\<rparr>
               | None \<Rightarrow> g_bt_devices s i)
            else g_bt_devices s i)\<rparr>, []))
      else (s, []))"

text \<open>
  \<^verbatim>\<open>find_bt_device_by_mac\<close>: the first valid slot with the address, \<open>None\<close> for the result
  -1. \<^verbatim>\<open>find_free_bt_device_slot\<close>: the first slot that is not valid, and slot 0 when all
  are.
\<close>

definition find_bt_device_by_mac :: "stereo \<Rightarrow> u8 list \<Rightarrow> nat option" where
  "find_bt_device_by_mac s mac =
     find (\<lambda>i. valid (g_bt_devices s i) \<and> mac_addr (g_bt_devices s i) = take 6 mac)
       [0..<MAX_BT_DEVICES]"

definition find_free_bt_device_slot :: "stereo \<Rightarrow> nat" where
  "find_free_bt_device_slot s =
     (case find (\<lambda>i. \<not> valid (g_bt_devices s i)) [0..<MAX_BT_DEVICES] of
        Some i \<Rightarrow> i | None \<Rightarrow> 0)"

subsection \<open>Notifications and callbacks\<close>

text \<open>
  \<^verbatim>\<open>send_display_notification\<close>: nothing happens without a display handler; a null
  subtext leaves the zero-initialised field empty; \<^verbatim>\<open>strncpy\<close> cuts the texts to the
  field sizes.
\<close>

fun cut_text :: "display_text \<Rightarrow> display_text" where
  "cut_text (Text t) = Text (take 127 t)"
| "cut_text t = t"

definition send_display_notification ::
  "display_notification_type \<Rightarrow> display_text \<Rightarrow> string option \<Rightarrow> nat \<Rightarrow> nat \<Rightarrow> action" where
  "send_display_notification ty text subtext duration prio s =
     (s, if display_handler (g_config s) then
           [Display \<lparr>n_type = ty, n_text = cut_text text,
              n_subtext = (case subtext of None \<Rightarrow> [] | Some t \<Rightarrow> take 63 t),
              duration_ms = duration, priority = prio\<rparr>]
         else [])"

text \<open>\<^verbatim>\<open>if (g_config.on_mode_change) g_config.on_mode_change(old, new)\<close>.\<close>

definition call_on_mode_change :: "stereo_mode \<Rightarrow> stereo_mode \<Rightarrow> action" where
  "call_on_mode_change old new s =
     (s, if on_mode_change (g_config s) then [Mode_change old new] else [])"


subsection \<open>Station tuning timer\<close>

text \<open>
  \<^verbatim>\<open>start_station_tune_timer\<close> deletes a pending timer task and creates a new one, so
  exactly one is pending afterwards. \<^verbatim>\<open>station_tune_timer_callback\<close> is the body the task
  runs once its 2000 ms delay has elapsed.
\<close>

definition start_station_tune_timer :: action where
  "start_station_tune_timer = modify (\<lambda>s. s\<lparr>g_station_tune_timer := True\<rparr>)"

definition station_tune_timer_callback :: "env \<Rightarrow> action" where
  "station_tune_timer_callback e =
     do_all [
       (\<lambda>s. if g_browsing_stations s then
          do_all [
            modify (\<lambda>s. s\<lparr>g_radio_state :=
              (g_radio_state s)\<lparr>frequency := g_browsing_station_freq s\<rparr>\<rparr>),
            modify (\<lambda>s. s\<lparr>g_browsing_stations := False\<rparr>),
            (\<lambda>s. send_display_notification DISPLAY_FREQUENCY
                    (Text_mhz (g_browsing_station_freq s)) (Some ''Tuned'') 2000 100 s),
            save_to_nvs e] s
        else (s, [])),
       modify (\<lambda>s. s\<lparr>g_station_tune_timer := False\<rparr>)]"

subsection \<open>Mode handlers\<close>

definition browse_step :: "u8 \<Rightarrow> action" where
  "browse_step idx =
     do_all [
       modify (\<lambda>s. s\<lparr>g_browsing_station_idx := idx\<rparr>),
       modify (\<lambda>s. s\<lparr>g_browsing_station_freq :=
         87.5 + real (unat (g_browsing_station_idx s)) * 0.2\<rparr>),
       (\<lambda>s. send_display_notification DISPLAY_FREQUENCY
               (Text_mhz (g_browsing_station_freq s)) (Some ''Browsing'') 0 150 s),
       start_station_tune_timer]"

definition radio_volume_step :: "env \<Rightarrow> (u8 \<Rightarrow> u8) \<Rightarrow> action" where
  "radio_volume_step e f =
     do_all [
       modify (\<lambda>s. s\<lparr>g_radio_state :=
         (g_radio_state s)\<lparr>radio_volume := f (radio_volume (g_radio_state s))\<rparr>\<rparr>),
       (\<lambda>s. send_display_notification DISPLAY_VOLUME
               (Text_d (radio_volume (g_radio_state s))) (Some ''Radio'') 1000 120 s),
       save_to_nvs e]"

text \<open>\<^verbatim>\<open>if (v < 15) v++\<close> and \<^verbatim>\<open>if (v > 0) v--\<close> on a \<^verbatim>\<open>uint8_t\<close>.\<close>

definition vol_up :: "u8 \<Rightarrow> u8" where
  "vol_up v = (if v < 15 then v + 1 else v)"

definition vol_down :: "u8 \<Rightarrow> u8" where
  "vol_down v = (if v > 0 then v - 1 else v)"

definition handle_radio_mode :: "env \<Rightarrow> button_event \<Rightarrow> action" where
  "handle_radio_mode e ev s =
     (case event ev of
        BTN_EVENT_ROTARY_CW \<Rightarrow>
          if g_browsing_stations s then
            browse_step (of_nat ((unat (g_browsing_station_idx s) + 1) mod 20)) s
          else radio_volume_step e vol_up s
      | BTN_EVENT_ROTARY_CCW \<Rightarrow>
          if g_browsing_stations s then
            browse_step (if g_browsing_station_idx s = 0 then 19
                         else g_browsing_station_idx s - 1) s
          else radio_volume_step e vol_down s
      | BTN_EVENT_PRESS \<Rightarrow>
          if button ev = BTN_ROTARY \<and> \<not> g_browsing_stations s then
            send_display_notification DISPLAY_FREQUENCY (Text_mhz (frequency (g_radio_state s)))
              (Some (if g_current_band s = RADIO_BAND_FM then ''FM'' else ''AM'')) 2000 130 s
          else (s, [])
      | BTN_EVENT_RELEASE \<Rightarrow>
          (case station_index (button ev) of
             Some idx \<Rightarrow>
               (let freq = preset_freq (g_radio_state s) (g_current_band s) idx
                in if freq > 0 then
                     do_all [
                       modify (\<lambda>s. s\<lparr>g_radio_state := (g_radio_state s)\<lparr>frequency := freq\<rparr>\<rparr>),
                       send_display_notification DISPLAY_FREQUENCY
                         (Text_station (idx + 1) freq) None 2000 130,
                       save_to_nvs e] s
                   else (s, []))
           | None \<Rightarrow>
               if button ev = BTN_UP then
                 send_display_notification DISPLAY_MODE_CHANGE (Text ''Seeking Up'') None 1000 110 s
               else if button ev = BTN_DOWN then
                 send_display_notification DISPLAY_MODE_CHANGE (Text ''Seeking Down'') None 1000 110 s
               else if button ev = BTN_ROTARY then
                 do_all [
                   modify (\<lambda>s. s\<lparr>g_browsing_stations := \<not> g_browsing_stations s\<rparr>),
                   (\<lambda>s. if g_browsing_stations s then
                      do_all [
                        modify (\<lambda>s. s\<lparr>g_browsing_station_freq := frequency (g_radio_state s)\<rparr>),
                        modify (\<lambda>s. s\<lparr>g_browsing_station_idx :=
                          float_to_u8 ((g_browsing_station_freq s - 87.5) / 0.2)\<rparr>),
                        (\<lambda>s. send_display_notification DISPLAY_FREQUENCY
                                (Text_mhz (g_browsing_station_freq s)) (Some ''Browse Mode'') 0 150 s)] s
                    else (s, []))] s
               else (s, []))
      | BTN_EVENT_LONG_PRESS \<Rightarrow>
          (case station_index (button ev) of
             Some idx \<Rightarrow>
               do_all [
                 modify (\<lambda>s. s\<lparr>g_radio_state := (g_radio_state s)\<lparr>preset_freq :=
                   (preset_freq (g_radio_state s))(g_current_band s :=
                     (preset_freq (g_radio_state s) (g_current_band s))(idx :=
                       frequency (g_radio_state s)))\<rparr>\<rparr>),
                 send_display_notification DISPLAY_FREQUENCY
                   (Text_station_saved (idx + 1)) None 2000 140,
                 save_to_nvs e] s
           | None \<Rightarrow> (s, []))
      | BTN_EVENT_REPEAT \<Rightarrow> (s, [])
      | BTN_EVENT_RELEASE_AFTER_LONG \<Rightarrow> (s, []))"

definition a2dp_volume_step :: "env \<Rightarrow> (u8 \<Rightarrow> u8) \<Rightarrow> action" where
  "a2dp_volume_step e f =
     do_all [
       modify (\<lambda>s. s\<lparr>g_a2dp_state :=
         (g_a2dp_state s)\<lparr>a2dp_volume := f (a2dp_volume (g_a2dp_state s))\<rparr>\<rparr>),
       (\<lambda>s. send_display_notification DISPLAY_VOLUME
               (Text_d (a2dp_volume (g_a2dp_state s))) (Some ''Bluetooth'') 1000 120 s),
       (\<lambda>s. emit [Audio (Set_a2dp_volume (a2dp_volume (g_a2dp_state s)))] s),
       save_to_nvs e]"

definition handle_bluetooth_mode :: "env \<Rightarrow> button_event \<Rightarrow> action" where
  "handle_bluetooth_mode e ev s =
     (case event ev of
        BTN_EVENT_PRESS \<Rightarrow> (s, [])
      | BTN_EVENT_ROTARY_CW \<Rightarrow> a2dp_volume_step e vol_up s
      | BTN_EVENT_ROTARY_CCW \<Rightarrow> a2dp_volume_step e vol_down s
      | BTN_EVENT_RELEASE \<Rightarrow>
          if button ev = BTN_ROTARY then
            (if playing (g_a2dp_state s) then
               do_all [
                 emit [Audio Avrc_pause],
                 modify (\<lambda>s. s\<lparr>g_a2dp_state := (g_a2dp_state s)\<lparr>playing := False\<rparr>\<rparr>),
                 send_display_notification DISPLAY_MODE_CHANGE (Text ''Paused'') None 1000 110] s
             else
               do_all [
                 emit [Audio Avrc_play],
                 modify (\<lambda>s. s\<lparr>g_a2dp_state := (g_a2dp_state s)\<lparr>playing := True\<rparr>\<rparr>),
                 send_display_notification DISPLAY_MODE_CHANGE (Text ''Playing'') None 1000 110] s)
          else if button ev = BTN_UP then
            do_all [
              emit [Audio Avrc_next],
              send_display_notification DISPLAY_MODE_CHANGE (Text ''Next Track'') None 1000 110] s
          else if button ev = BTN_DOWN then
            do_all [
              emit [Audio Avrc_prev],
              send_display_notification DISPLAY_MODE_CHANGE (Text ''Previous Track'') None 1000 110] s
          else (s, [])
      | BTN_EVENT_LONG_PRESS \<Rightarrow> (s, [])
      | BTN_EVENT_RELEASE_AFTER_LONG \<Rightarrow> (s, [])
      | BTN_EVENT_REPEAT \<Rightarrow>
          if button ev = BTN_UP \<or> button ev = BTN_DOWN then
            a2dp_volume_step e
              (\<lambda>v. if button ev = BTN_UP \<and> v < 15 then v + 1
                    else if button ev = BTN_DOWN \<and> v > 0 then v - 1
                    else v) s
          else (s, []))"

text \<open>
  In \<^verbatim>\<open>handle_phone_call_mode\<close> the rotation branches test and step
  \<^verbatim>\<open>g_a2dp_state.volume\<close>, show it as "Call Volume", and pass
  \<^verbatim>\<open>g_hfp_state.speaker_volume\<close> to the audio stack; nothing happens at the bound.
\<close>

definition call_volume_step :: "(u8 \<Rightarrow> u8) \<Rightarrow> action" where
  "call_volume_step f =
     do_all [
       modify (\<lambda>s. s\<lparr>g_a2dp_state :=
         (g_a2dp_state s)\<lparr>a2dp_volume := f (a2dp_volume (g_a2dp_state s))\<rparr>\<rparr>),
       (\<lambda>s. send_display_notification DISPLAY_VOLUME
               (Text_d (a2dp_volume (g_a2dp_state s))) (Some ''Call Volume'') 1000 200 s),
       (\<lambda>s. emit [Audio (Set_hfp_speaker_volume (speaker_volume (g_hfp_state s)))] s)]"

definition handle_phone_call_mode :: "env \<Rightarrow> button_event \<Rightarrow> action" where
  "handle_phone_call_mode e ev s =
     (case event ev of
        BTN_EVENT_RELEASE \<Rightarrow> (s, [])
      | BTN_EVENT_LONG_PRESS \<Rightarrow> (s, [])
      | BTN_EVENT_ROTARY_CW \<Rightarrow>
          if a2dp_volume (g_a2dp_state s) < 15 then call_volume_step (\<lambda>v. v + 1) s
          else (s, [])
      | BTN_EVENT_ROTARY_CCW \<Rightarrow>
          if a2dp_volume (g_a2dp_state s) > 0 then call_volume_step (\<lambda>v. v - 1) s
          else (s, [])
      | BTN_EVENT_PRESS \<Rightarrow>
          if button ev = BTN_ROTARY then
            do_all [
              emit [Audio Hangup_call],
              send_display_notification DISPLAY_CALL_ACTIVE (Text ''Call Ended'') None 2000 250,
              modify (\<lambda>s. s\<lparr>g_current_mode := g_mode_before_call s\<rparr>),
              (\<lambda>s. call_on_mode_change MODE_PHONE_CALL (g_current_mode s) s),
              save_to_nvs e] s
          else (s, [])
      | BTN_EVENT_RELEASE_AFTER_LONG \<Rightarrow> (s, [])
      | BTN_EVENT_REPEAT \<Rightarrow> (s, []))"

definition handle_phonebook_mode :: "button_event \<Rightarrow> action" where
  "handle_phonebook_mode ev s = (s, [])"

definition on_bt_volume_changed :: "bt_volume_target \<Rightarrow> u8 \<Rightarrow> action" where
  "on_bt_volume_changed target new_volume =
     do_all [
       modify (\<lambda>s. case target of
           BT_VOLUME_TARGET_A2DP \<Rightarrow>
             s\<lparr>g_a2dp_state := (g_a2dp_state s)\<lparr>a2dp_volume := new_volume\<rparr>\<rparr>
         | BT_VOLUME_TARGET_HFP_SPEAKER \<Rightarrow>
             s\<lparr>g_hfp_state := (g_hfp_state s)\<lparr>speaker_volume := new_volume\<rparr>\<rparr>
         | BT_VOLUME_TARGET_HFP_MIC \<Rightarrow>
             s\<lparr>g_hfp_state := (g_hfp_state s)\<lparr>mic_volume := new_volume\<rparr>\<rparr>),
       send_display_notification DISPLAY_VOLUME (Text_d new_volume)
         (Some (case target of
             BT_VOLUME_TARGET_A2DP \<Rightarrow> ''Bluetooth''
           | BT_VOLUME_TARGET_HFP_SPEAKER \<Rightarrow> ''Call Volume''
           | BT_VOLUME_TARGET_HFP_MIC \<Rightarrow> ''Mic Volume'')) 1000 120]"


subsection \<open>Public interface\<close>

text \<open>
  The static initialisers of the globals, with the persistent store \<open>st\<close> that the flash
  holds at that moment: the state in which \<^verbatim>\<open>stereo_state_init\<close> finds the module after
  a start of the firmware.
\<close>

definition boot :: "nvs_store \<Rightarrow> stereo" where
  "boot st = \<lparr>
     g_powered_on = False,
     g_current_mode = MODE_OFF,
     g_mode_before_call = MODE_RADIO,
     g_mode_before_phonebook = MODE_RADIO,
     g_radio_state = \<lparr>frequency = 0, radio_volume = 0, band = RADIO_BAND_FM,
       preset_freq = (\<lambda>b i. 0)\<rparr>,
     g_a2dp_state = \<lparr>a2dp_volume = 0, playing = False\<rparr>,
     g_hfp_state = \<lparr>speaker_volume = 0, mic_volume = 0, call_active = False\<rparr>,
     g_config = \<lparr>display_handler = False, on_mode_change = False\<rparr>,
     g_current_band = RADIO_BAND_FM,
     g_browsing_stations = False,
     g_browsing_station_idx = 0,
     g_browsing_station_freq = 87.5,
     g_station_tune_timer = False,
     g_caller_id = [],
     g_voice_recognition_active = False,
     g_bt_devices = (\<lambda>i. \<lparr>mac_addr = replicate 6 0, dev_a2dp_volume = 0,
       dev_hfp_speaker_volume = 0, dev_hfp_mic_volume = 0, valid = False\<rparr>),
     g_current_bt_device_mac = replicate 6 0,
     nvs = st\<rparr>"

definition default_presets :: "radio_band \<Rightarrow> real list" where
  "default_presets b = (case b of
       RADIO_BAND_FM \<Rightarrow> [87.9, 95.3, 101.1, 105.7, 107.9]
     | RADIO_BAND_AM \<Rightarrow> [540, 720, 950, 1200, 1450])"

definition init_defaults :: "stereo \<Rightarrow> stereo" where
  "init_defaults s = s\<lparr>
     g_radio_state := (g_radio_state s)\<lparr>frequency := 87.5, radio_volume := 10,
       preset_freq := (\<lambda>b i. if i < 5 then default_presets b ! i
                               else preset_freq (g_radio_state s) b i)\<rparr>,
     g_a2dp_state := (g_a2dp_state s)\<lparr>a2dp_volume := 10, playing := False\<rparr>,
     g_hfp_state := (g_hfp_state s)\<lparr>speaker_volume := 12, mic_volume := 10,
       call_active := False\<rparr>\<rparr>"

text \<open>
  \<^verbatim>\<open>stereo_state_init\<close>; \<open>config\<close> is \<open>None\<close> for a null pointer. The result is \<open>None\<close>
  when the store holds a mode or band byte that is no enumerator (see \<open>mode_of_code\<close>);
  otherwise the function returns \<^verbatim>\<open>ESP_OK\<close>.
\<close>

definition stereo_state_init ::
  "env \<Rightarrow> stereo_config option \<Rightarrow> stereo \<Rightarrow> (stereo \<times> effect list) option" where
  "stereo_state_init e config s =
     do {
       s1 \<leftarrow> load_from_nvs e
               (init_defaults (case config of Some c \<Rightarrow> s\<lparr>g_config := c\<rparr> | None \<Rightarrow> s));
       Some (do_all [
         load_bt_device_settings e,
         (\<lambda>s. emit [Audio (Bt_volume_control_init (a2dp_volume (g_a2dp_state s))
                  (speaker_volume (g_hfp_state s)) (mic_volume (g_hfp_state s)))] s),
         (\<lambda>s. if g_powered_on s \<and> g_current_mode s = MODE_RADIO then
                 send_display_notification DISPLAY_MODE_CHANGE (Text ''Radio'') None 2000 100 s
               else if \<not> g_powered_on s then
                 modify (\<lambda>s. s\<lparr>g_current_mode := MODE_OFF\<rparr>) s
               else (s, []))] s1)
     }"

definition stereo_state_handle_button :: "env \<Rightarrow> button_event \<Rightarrow> action" where
  "stereo_state_handle_button e ev s =
     (if button ev = BTN_ROTARY \<and> event ev = BTN_EVENT_PRESS then
        (if g_current_mode s = MODE_OFF then
           do_all [
             modify (\<lambda>s. s\<lparr>g_powered_on := True\<rparr>),
             modify (\<lambda>s. s\<lparr>g_current_mode := MODE_RADIO\<rparr>),
             send_display_notification DISPLAY_MODE_CHANGE (Text ''Power ON'') None 1500 150,
             save_to_nvs e,
             (\<lambda>s. call_on_mode_change MODE_OFF (g_current_mode s) s)] s
         else
           (let old_mode = g_current_mode s in
            do_all [
              modify (\<lambda>s. s\<lparr>g_powered_on := False\<rparr>),
              modify (\<lambda>s. s\<lparr>g_current_mode := MODE_OFF\<rparr>),
              send_display_notification DISPLAY_MODE_CHANGE (Text ''Power OFF'') None 1000 150,
              save_to_nvs e,
              call_on_mode_change old_mode MODE_OFF] s))
      else if button ev = BTN_BAND_UM \<and> event ev = BTN_EVENT_PRESS then
        (if \<not> g_voice_recognition_active s \<and>
            (g_current_mode s = MODE_BLUETOOTH \<or> g_current_mode s = MODE_RADIO) then
           do_all [
             emit [Audio Start_voice_recognition],
             (\<lambda>s. if voice_ok e then
                do_all [
                  modify (\<lambda>s. s\<lparr>g_voice_recognition_active := True\<rparr>),
                  send_display_notification DISPLAY_MODE_CHANGE (Text ''Voice Assistant'')
                    (Some ''Listening...'') 0 200] s
              else
                send_display_notification DISPLAY_MODE_CHANGE (Text ''Voice Assistant'')
                  (Some ''Failed to Start'') 2000 200 s)] s
         else if g_voice_recognition_active s then (s, [])
         else (s, []))
      else if button ev = BTN_BAND_VF \<and> event ev = BTN_EVENT_PRESS then
        (if g_voice_recognition_active s then
           do_all [
             emit [Audio Stop_voice_recognition],
             (\<lambda>s. if voice_ok e then
                do_all [
                  modify (\<lambda>s. s\<lparr>g_voice_recognition_active := False\<rparr>),
                  send_display_notification DISPLAY_MODE_CHANGE (Text ''Voice Assistant'')
                    (Some ''Stopped'') 1500 180] s
              else (s, []))] s
         else (s, []))
      else if g_current_mode s = MODE_OFF then (s, [])
      else
        (case g_current_mode s of
           MODE_BLUETOOTH \<Rightarrow> handle_bluetooth_mode e ev s
         | MODE_RADIO \<Rightarrow> handle_radio_mode e ev s
         | MODE_PHONE_CALL \<Rightarrow> handle_phone_call_mode e ev s
         | MODE_PHONEBOOK \<Rightarrow> handle_phonebook_mode ev s
         | MODE_OFF \<Rightarrow> (s, [])))"

definition stereo_state_get_mode :: "stereo \<Rightarrow> stereo_mode" where
  "stereo_state_get_mode s = g_current_mode s"

definition stereo_state_is_powered_on :: "stereo \<Rightarrow> bool" where
  "stereo_state_is_powered_on s = g_powered_on s"

definition stereo_state_set_power :: "env \<Rightarrow> bool \<Rightarrow> action" where
  "stereo_state_set_power e on s =
     (if on = g_powered_on s then (s, [])
      else
        do_all [
          modify (\<lambda>s. s\<lparr>g_powered_on := on\<rparr>),
          (\<lambda>s. if on then
             do_all [
               modify (\<lambda>s. s\<lparr>g_current_mode := MODE_RADIO\<rparr>),
               send_display_notification DISPLAY_MODE_CHANGE (Text ''Power ON'')
                 (Some ''Welcome'') 2000 200] s
           else
             do_all [
               modify (\<lambda>s. s\<lparr>g_current_mode := MODE_OFF\<rparr>),
               send_display_notification DISPLAY_MODE_CHANGE (Text ''Power OFF'')
                 (Some ''Goodbye'') 2000 200] s),
          save_to_nvs e,
          (\<lambda>s. call_on_mode_change MODE_OFF (g_current_mode s) s)] s)"

definition auto_power_on_if_off :: "env \<Rightarrow> stereo_mode \<Rightarrow> string \<Rightarrow> action" where
  "auto_power_on_if_off e target_mode reason s =
     (if g_powered_on s then
        (if g_current_mode s \<noteq> target_mode \<and> g_current_mode s \<noteq> MODE_PHONE_CALL then
           (let old_mode = g_current_mode s in
            do_all [
              modify (\<lambda>s. s\<lparr>g_current_mode := target_mode\<rparr>),
              send_display_notification DISPLAY_MODE_CHANGE
                (Text (if target_mode = MODE_BLUETOOTH then ''Bluetooth'' else ''Phone Call''))
                (Some reason) 1500 180,
              save_to_nvs e,
              call_on_mode_change old_mode target_mode] s)
         else (s, []))
      else
        do_all [
          modify (\<lambda>s. s\<lparr>g_powered_on := True\<rparr>),
          modify (\<lambda>s. s\<lparr>g_current_mode := target_mode\<rparr>),
          send_display_notification DISPLAY_MODE_CHANGE (Text ''Auto Power ON'')
            (Some reason) 2000 200,
          save_to_nvs e,
          (\<lambda>s. call_on_mode_change MODE_OFF (g_current_mode s) s)] s)"

text \<open>
  \<^verbatim>\<open>stereo_state_hfp_call_status\<close>; \<open>caller_id\<close> is \<open>None\<close> for a null pointer, and
  \<^verbatim>\<open>strncpy\<close> keeps at most 63 characters of it.
\<close>

definition stereo_state_hfp_call_status :: "env \<Rightarrow> bool \<Rightarrow> string option \<Rightarrow> action" where
  "stereo_state_hfp_call_status e is_active caller_id s =
     (if is_active \<and> g_current_mode s \<noteq> MODE_PHONE_CALL then
        do_all [
          modify (\<lambda>s. s\<lparr>g_caller_id :=
            (case caller_id of Some c \<Rightarrow> take 63 c | None \<Rightarrow> ''Unknown Caller'')\<rparr>),
          (\<lambda>s. if \<not> g_powered_on s then
                  auto_power_on_if_off e MODE_PHONE_CALL ''Incoming Call'' s
                else
                  do_all [
                    modify (\<lambda>s. s\<lparr>g_mode_before_call :=
                      (if g_current_mode s = MODE_PHONEBOOK then g_mode_before_phonebook s
                       else g_current_mode s)\<rparr>),
                    modify (\<lambda>s. s\<lparr>g_current_mode := MODE_PHONE_CALL\<rparr>),
                    (\<lambda>s. call_on_mode_change (g_mode_before_call s) MODE_PHONE_CALL s)] s),
          (\<lambda>s. send_display_notification DISPLAY_CALL_INCOMING (Text (g_caller_id s))
                  (Some ''Press to answer'') 0 255 s),
          emit [Audio Answer_call],
          (\<lambda>s. send_display_notification DISPLAY_CALL_ACTIVE (Text (g_caller_id s))
                  (Some ''Connected'') 0 250 s)] s
      else if \<not> is_active \<and> g_current_mode s = MODE_PHONE_CALL then
        do_all [
          send_display_notification DISPLAY_CALL_ACTIVE (Text ''Call Ended'') None 2000 200,
          modify (\<lambda>s. s\<lparr>g_current_mode := g_mode_before_call s\<rparr>),
          (\<lambda>s. call_on_mode_change MODE_PHONE_CALL (g_current_mode s) s),
          save_to_nvs e] s
      else (s, []))"

fun mode_names :: "stereo_mode \<Rightarrow> string" where
  "mode_names MODE_OFF = ''OFF''"
| "mode_names MODE_RADIO = ''RADIO''"
| "mode_names MODE_BLUETOOTH = ''BLUETOOTH''"
| "mode_names MODE_PHONE_CALL = ''PHONE_CALL''"
| "mode_names MODE_PHONEBOOK = ''PHONEBOOK''"

definition stereo_state_set_mode :: "env \<Rightarrow> stereo_mode \<Rightarrow> action" where
  "stereo_state_set_mode e m s =
     (if m = g_current_mode s then (s, [])
      else
        (let old_mode = g_current_mode s in
         do_all [
           modify (\<lambda>s. s\<lparr>g_current_mode := m\<rparr>),
           send_display_notification DISPLAY_MODE_CHANGE (Text (mode_names m)) None 2000 150,
           save_to_nvs e,
           call_on_mode_change old_mode m] s))"

definition stereo_state_a2dp_streaming :: "env \<Rightarrow> bool \<Rightarrow> action" where
  "stereo_state_a2dp_streaming e streaming =
     do_all [
       modify (\<lambda>s. s\<lparr>g_a2dp_state := (g_a2dp_state s)\<lparr>playing := streaming\<rparr>\<rparr>),
       (\<lambda>s. if streaming then auto_power_on_if_off e MODE_BLUETOOTH ''Music Playing'' s
             else (s, []))]"

text \<open>
  \<^verbatim>\<open>stereo_state_bt_device_connected\<close> and \<^verbatim>\<open>stereo_state_bt_device_disconnected\<close>;
  \<open>device_addr\<close> is \<open>None\<close> for a null pointer, and the 6 bytes the pointer leads to
  otherwise.
\<close>

definition stereo_state_bt_device_connected :: "u8 list option \<Rightarrow> action" where
  "stereo_state_bt_device_connected device_addr s =
     (case device_addr of
        None \<Rightarrow> (s, [])
      | Some addr \<Rightarrow>
          do_all [
            modify (\<lambda>s. s\<lparr>g_current_bt_device_mac := take 6 addr\<rparr>),
            (\<lambda>s. case find_bt_device_by_mac s addr of
               Some idx \<Rightarrow>
                 (let saved_a2dp_vol = dev_a2dp_volume (g_bt_devices s idx);
                      saved_hfp_speaker_vol = dev_hfp_speaker_volume (g_bt_devices s idx);
                      saved_hfp_mic_vol = dev_hfp_mic_volume (g_bt_devices s idx) in
                  do_all [
                    modify (\<lambda>s. s\<lparr>g_a2dp_state :=
                      (g_a2dp_state s)\<lparr>a2dp_volume := saved_a2dp_vol\<rparr>\<rparr>),
                    modify (\<lambda>s. s\<lparr>g_hfp_state :=
                      (g_hfp_state s)\<lparr>speaker_volume := saved_hfp_speaker_vol\<rparr>\<rparr>),
                    modify (\<lambda>s. s\<lparr>g_hfp_state :=
                      (g_hfp_state s)\<lparr>mic_volume := saved_hfp_mic_vol\<rparr>\<rparr>),
                    emit [Audio (Set_a2dp_volume saved_a2dp_vol),
                          Audio (Set_hfp_speaker_volume saved_hfp_speaker_vol),
                          Audio (Set_hfp_mic_volume saved_hfp_mic_vol)],
                    send_display_notification DISPLAY_MODE_CHANGE (Text ''Device Connected'')
                      (Some ''Volumes Restored'') 2000 140] s)
             | None \<Rightarrow>
                 do_all [
                   emit [Audio (Set_a2dp_volume (a2dp_volume (g_a2dp_state s))),
                         Audio (Set_hfp_speaker_volume (speaker_volume (g_hfp_state s))),
                         Audio (Set_hfp_mic_volume (mic_volume (g_hfp_state s)))],
                   send_display_notification DISPLAY_MODE_CHANGE (Text ''New Device'')
                     (Some ''Default Volumes'') 2000 140] s)] s)"

definition stereo_state_bt_device_disconnected :: "env \<Rightarrow> u8 list option \<Rightarrow> action" where
  "stereo_state_bt_device_disconnected e device_addr s =
     (case device_addr of
        None \<Rightarrow> (s, [])
      | Some addr \<Rightarrow>
          (let idx = (case find_bt_device_by_mac s addr of
                        Some i \<Rightarrow> i | None \<Rightarrow> find_free_bt_device_slot s) in
           do_all [
             modify (\<lambda>s. s\<lparr>g_bt_devices := (g_bt_devices s)(idx :=
               \<lparr>mac_addr = take 6 addr,
                dev_a2dp_volume = a2dp_volume (g_a2dp_state s),
                dev_hfp_speaker_volume = speaker_volume (g_hfp_state s),
                dev_hfp_mic_volume = mic_volume (g_hfp_state s),
                valid = True\<rparr>)\<rparr>),
             save_bt_device_settings e,
             modify (\<lambda>s. s\<lparr>g_current_bt_device_mac := replicate 6 0\<rparr>)] s))"

text \<open>\<^verbatim>\<open>stereo_state_save\<close>.\<close>

definition stereo_state_save :: "env \<Rightarrow> action" where
  "stereo_state_save e = save_to_nvs e"

section \<open>Runs of the state machine\<close>

text \<open>
  What can happen to the module: a (re)start of the firmware, which resets the globals to
  their initialisers and keeps the store; a call of one of the public operations, those
  for a Bluetooth device that connects or disconnects included; the tune timer expiring,
  which has an effect only while a timer task is pending; and a volume notification from
  the audio stack. The two operations that only record and show
  a text, \<^verbatim>\<open>stereo_state_rds_update\<close> and \<^verbatim>\<open>stereo_state_a2dp_metadata\<close>, are left out with
  the texts.
\<close>

datatype stimulus =
    Restart
  | Call_init "stereo_config option"
  | Call_handle_button button_event
  | Call_set_power bool
  | Call_set_mode stereo_mode
  | Call_hfp_call_status bool "string option"
  | Call_a2dp_streaming bool
  | Tune_timer_expires
  | Bt_volume_changed bt_volume_target u8
  | Call_bt_device_connected "u8 list option"
  | Call_bt_device_disconnected "u8 list option"
  | Call_save

fun react :: "env \<Rightarrow> stimulus \<Rightarrow> stereo \<Rightarrow> (stereo \<times> effect list) option" where
  "react e Restart s = Some (boot (nvs s), [])"
| "react e (Call_init config) s = stereo_state_init e config s"
| "react e (Call_handle_button ev) s = Some (stereo_state_handle_button e ev s)"
| "react e (Call_set_power on) s = Some (stereo_state_set_power e on s)"
| "react e (Call_set_mode m) s = Some (stereo_state_set_mode e m s)"
| "react e (Call_hfp_call_status a c) s = Some (stereo_state_hfp_call_status e a c s)"
| "react e (Call_a2dp_streaming b) s = Some (stereo_state_a2dp_streaming e b s)"
| "react e Tune_timer_expires s =
     Some (if g_station_tune_timer s then station_tune_timer_callback e s else (s, []))"
| "react e (Bt_volume_changed t v) s = Some (on_bt_volume_changed t v s)"
| "react e (Call_bt_device_connected a) s = Some (stereo_state_bt_device_connected a s)"
| "react e (Call_bt_device_disconnected a) s = Some (stereo_state_bt_device_disconnected e a s)"
| "react e Call_save s = Some (stereo_state_save e s)"

fun run :: "stereo \<Rightarrow> (env \<times> stimulus) list \<Rightarrow> stereo option" where
  "run s [] = Some s"
| "run s ((e, x) # rest) =
     (case react e x s of None \<Rightarrow> None | Some (s1, fx) \<Rightarrow> run s1 rest)"

definition ok_env :: env where
  "ok_env = \<lparr>nvs_open_ok = True, nvs_open_bt_ok = True, voice_ok = True\<rparr>"

section \<open>Notions used to state the properties\<close>

text \<open>The configuration main.c passes to the initialisation: both callbacks set.\<close>

definition full_config :: stereo_config where
  "full_config = \<lparr>display_handler = True, on_mode_change = True\<rparr>"

text \<open>\<^verbatim>\<open>g_powered_on == false\<close> exactly when \<^verbatim>\<open>g_current_mode == MODE_OFF\<close>.\<close>

definition power_mode_consistent :: "stereo \<Rightarrow> bool" where
  "power_mode_consistent s = ((\<not> g_powered_on s) = (g_current_mode s = MODE_OFF))"

fun is_set_mode :: "stimulus \<Rightarrow> bool" where
  "is_set_mode (Call_set_mode m) = True"
| "is_set_mode x = False"

text \<open>
  What the store holds when only \<^verbatim>\<open>save_to_nvs\<close> has written it: mode and band bytes
  that are enumerators, and a power flag that is present with the mode and agrees with it.
\<close>

definition store_codes_ok :: "nvs_store \<Rightarrow> bool" where
  "store_codes_ok st =
     ((case nvs_mode st of None \<Rightarrow> True | Some c \<Rightarrow> mode_of_code c \<noteq> None) \<and>
      (case nvs_radio_band st of None \<Rightarrow> True | Some c \<Rightarrow> band_of_code c \<noteq> None))"

definition store_power_mode_ok :: "nvs_store \<Rightarrow> bool" where
  "store_power_mode_ok st =
     (case nvs_power_on st of
        None \<Rightarrow> nvs_mode st = None
      | Some p \<Rightarrow> (case nvs_mode st of None \<Rightarrow> False | Some c \<Rightarrow> (p = 0) = (c = 0)))"

definition mode_inv :: "stereo \<Rightarrow> bool" where
  "mode_inv s =
     (power_mode_consistent s \<and> g_mode_before_call s \<noteq> MODE_OFF \<and>
      g_mode_before_phonebook s \<noteq> MODE_OFF \<and>
      store_codes_ok (nvs s) \<and> store_power_mode_ok (nvs s))"

text \<open>
  Every volume byte of the state is at most 15 (an unsigned byte is never below 0), and so
  is every volume byte the device table and the store hold.
\<close>

definition volumes_in_range :: "stereo \<Rightarrow> bool" where
  "volumes_in_range s =
     (radio_volume (g_radio_state s) \<le> 15 \<and> a2dp_volume (g_a2dp_state s) \<le> 15 \<and>
      speaker_volume (g_hfp_state s) \<le> 15 \<and> mic_volume (g_hfp_state s) \<le> 15)"

definition stored_volume_ok :: "u8 option \<Rightarrow> bool" where
  "stored_volume_ok v = (case v of None \<Rightarrow> True | Some x \<Rightarrow> x \<le> 15)"

definition device_volumes_ok :: "bt_device_settings \<Rightarrow> bool" where
  "device_volumes_ok d =
     (dev_a2dp_volume d \<le> 15 \<and> dev_hfp_speaker_volume d \<le> 15 \<and> dev_hfp_mic_volume d \<le> 15)"

definition stored_device_ok :: "bt_blob option \<Rightarrow> bool" where
  "stored_device_ok v =
     (case v of None \<Rightarrow> True | Some (mac, a, sp, m) \<Rightarrow> a \<le> 15 \<and> sp \<le> 15 \<and> m \<le> 15)"

definition vol_inv :: "stereo \<Rightarrow> bool" where
  "vol_inv s =
     (volumes_in_range s \<and> store_codes_ok (nvs s) \<and>
      stored_volume_ok (nvs_radio_vol (nvs s)) \<and> stored_volume_ok (nvs_a2dp_vol (nvs s)) \<and>
      stored_volume_ok (nvs_hfp_spk_vol (nvs s)) \<and> stored_volume_ok (nvs_hfp_mic_vol (nvs s)) \<and>
      (\<forall>i. device_volumes_ok (g_bt_devices s i)) \<and>
      (\<forall>i. stored_device_ok (nvs_bt_dev (nvs s) i)))"

fun volume_notification_ok :: "stimulus \<Rightarrow> bool" where
  "volume_notification_ok (Bt_volume_changed t v) = (v \<le> 15)"
| "volume_notification_ok x = True"

text \<open>
  The notification that reports a failed start of the voice assistant, and collaborators
  whose voice-recognition call does not return \<^verbatim>\<open>ESP_OK\<close>.
\<close>

definition voice_failure_notice :: effect where
  "voice_failure_notice =
     Display \<lparr>n_type = DISPLAY_MODE_CHANGE, n_text = Text ''Voice Assistant'',
       n_subtext = ''Failed to Start'', duration_ms = 2000, priority = 200\<rparr>"

definition refusing_env :: env where
  "refusing_env = \<lparr>nvs_open_ok = True, nvs_open_bt_ok = True, voice_ok = False\<rparr>"

definition rotate_cw :: button_event where
  "rotate_cw = mk_event BTN_ROTARY BTN_EVENT_ROTARY_CW"

text \<open>Events and stimuli for the browsing scenario.\<close>

definition release_rotary :: button_event where
  "release_rotary = mk_event BTN_ROTARY BTN_EVENT_RELEASE"

definition is_rotation :: "button_event \<Rightarrow> bool" where
  "is_rotation ev = (event ev = BTN_EVENT_ROTARY_CW \<or> event ev = BTN_EVENT_ROTARY_CCW)"

definition presses :: "env \<Rightarrow> button_event list \<Rightarrow> (env \<times> stimulus) list" where
  "presses e evs = map (\<lambda>ev. (e, Call_handle_button ev)) evs"

section \<open>Properties of the threshold decoder\<close>

text \<open>
  Claim C2. Whatever the ADC delivers in the four reads (any values, any failed reads),
  \<^verbatim>\<open>adc_read_button\<close> returns \<^verbatim>\<open>BTN_NONE\<close>: the return placed before the matching loop
  is taken on every path, so no ladder button is ever identified.
\<close>

theorem adc_read_button_always_none: "adc_read_button adc = BTN_NONE"
  by (simp add: adc_read_button_def Let_def)

text \<open>
  The loop behind the return would tell the buttons apart: a mean of 757, for one, lies in
  the band of the third ladder button only.
\<close>

lemma matching_loop_would_identify:
  "find_matching_button 757 (zip button_thresholds ladder_buttons) = BTN_STATION_1"
  by (simp add: button_thresholds_def ladder_buttons_def THRESHOLD_TOLERANCE_def)

text \<open>
  With that return value the polling loop of \<^verbatim>\<open>adc_button_monitor_task\<close>, which starts
  with no button held, never reports anything.
\<close>

lemma adc_monitor_silent:
  "last_button m = BTN_NONE \<Longrightarrow>
   adc_button_monitor_step cb (adc_read_button adc) now m = (m, [])"
  by (simp add: adc_button_monitor_step_def adc_read_button_def Let_def)

section \<open>Properties of the rotary decoder\<close>

lemmas rotary_defs = rotary_init_def rotary_encoder_isr_def button_long_press_monitor_task_def
  Let_def ROTARY_DEBOUNCE_MS_def DEBOUNCE_MS_def LONG_PRESS_THRESHOLD_MS_def transition_def
  rotary_transition_table_def deliver_def mk_event_def long_presses_def rotations_def


lemma transition_range: "transition a b \<in> {-1, 0, 1}"
  by (cases a; cases b) (simp_all add: transition_def rotary_transition_table_def)

lemma isr_position_bounded:
  "\<bar>g_encoder_position r\<bar> \<le> 1 \<Longrightarrow>
   \<bar>g_encoder_position (fst (rotary_encoder_isr now sw clk dt r))\<bar> \<le> 1"
  using transition_range [of "g_encoder_state r" "phase_pair clk dt"]
  by (auto simp add: rotary_encoder_isr_def Let_def)






lemma isr_latch:
  "\<not> press_start r (Isr now sw clk dt) \<Longrightarrow>
   g_long_press_sent (fst (rotary_encoder_isr now sw clk dt r)) = g_long_press_sent r"
  by (auto simp add: rotary_encoder_isr_def Let_def)

lemma isr_no_long_press: "long_presses (snd (rotary_encoder_isr now sw clk dt r)) = 0"
  by (auto simp add: rotary_encoder_isr_def Let_def long_presses_def mk_event_def)

lemma monitor_budget:
  "long_presses (snd (button_long_press_monitor_task now r)) +
     (if g_long_press_sent (fst (button_long_press_monitor_task now r)) then 0 else 1)
   \<le> (if g_long_press_sent r then 0 else 1)"
  by (auto simp add: button_long_press_monitor_task_def Let_def long_presses_def deliver_def)

text \<open>
  A step that is not a press start cannot spend more long presses than the latch allows:
  one while the latch is clear, none once it is set.
\<close>

lemma step_budget:
  "\<not> press_start r a \<Longrightarrow>
   long_presses (snd (rotary_step r a)) +
     (if g_long_press_sent (fst (rotary_step r a)) then 0 else 1)
   \<le> (if g_long_press_sent r then 0 else 1)"
proof (cases a)
  case (Isr now sw clk dt)
  assume "\<not> press_start r a"
  with Isr show ?thesis
    using isr_latch [of r now sw clk dt] isr_no_long_press [of now sw clk dt r] by simp
next
  case (Monitor now)
  then show ?thesis using monitor_budget [of now r] by simp
qed

lemma rotary_run_Cons:
  "rotary_run r (a # as) =
     (fst (rotary_run (fst (rotary_step r a)) as),
      snd (rotary_step r a) @ snd (rotary_run (fst (rotary_step r a)) as))"
  by (simp split: prod.splits)

lemma long_presses_append: "long_presses (xs @ ys) = long_presses xs + long_presses ys"
  by (simp add: long_presses_def)

lemma run_budget:
  "no_press_start r as \<Longrightarrow>
   long_presses (snd (rotary_run r as)) \<le> (if g_long_press_sent r then 0 else 1)"
proof (induction as arbitrary: r)
  case Nil
  then show ?case by (simp add: long_presses_def)
next
  case (Cons a as)
  from Cons.prems have a: "\<not> press_start r a"
    and rest: "no_press_start (fst (rotary_step r a)) as"
    by simp_all
  have "long_presses (snd (rotary_run r (a # as))) =
        long_presses (snd (rotary_step r a)) +
        long_presses (snd (rotary_run (fst (rotary_step r a)) as))"
    by (simp only: rotary_run_Cons snd_conv long_presses_append)
  with Cons.IH [OF rest] step_budget [OF a] show ?case
    by (simp split: if_splits)
qed

lemma held_no_press_start: "held r as \<Longrightarrow> no_press_start r as"
proof (induction as arbitrary: r)
  case Nil
  then show ?case by simp
next
  case (Cons a as)
  then show ?case by (cases a) simp_all
qed

lemma latch_cleared_only_by_press_start:
  "g_long_press_sent r \<Longrightarrow> \<not> g_long_press_sent (fst (rotary_step r a)) \<Longrightarrow> press_start r a"
proof (cases a)
  case (Isr now sw clk dt)
  assume "g_long_press_sent r" "\<not> g_long_press_sent (fst (rotary_step r a))"
  with Isr show ?thesis using isr_latch [of r now sw clk dt] by auto
next
  case (Monitor now)
  assume "g_long_press_sent r" "\<not> g_long_press_sent (fst (rotary_step r a))"
  with Monitor show ?thesis
    by (simp add: button_long_press_monitor_task_def Let_def split: if_splits)
qed

text \<open>
  Claim C6. Take a firing \<open>a\<close> that starts a press and any actions \<open>as\<close> after it,
  interrupt firings and monitor iterations in any order and at any times, none of which
  starts a press again (so the whole press up to its release, and the time after it up to
  the next press start). All together they produce at most one long-press event of the
  rotary button. And the latch goes from set to clear only in a step that starts a press.
\<close>

theorem long_press_at_most_once:
  "(press_start r a \<and> no_press_start (fst (rotary_step r a)) as \<longrightarrow>
      long_presses (snd (rotary_run r (a # as))) \<le> 1) \<and>
   (g_long_press_sent r' \<and> \<not> g_long_press_sent (fst (rotary_step r' b)) \<longrightarrow>
      press_start r' b)"
proof (intro conjI impI)
  assume h: "press_start r a \<and> no_press_start (fst (rotary_step r a)) as"
  then have "long_presses (snd (rotary_step r a)) = 0"
    by (cases a) (simp_all add: isr_no_long_press)
  moreover have "long_presses (snd (rotary_run (fst (rotary_step r a)) as)) \<le> 1"
    using h run_budget [of "fst (rotary_step r a)" as] by (simp split: if_splits)
  ultimately show "long_presses (snd (rotary_run r (a # as))) \<le> 1"
    by (simp only: rotary_run_Cons snd_conv long_presses_append)
next
  assume "g_long_press_sent r' \<and> \<not> g_long_press_sent (fst (rotary_step r' b))"
  then show "press_start r' b"
    using latch_cleared_only_by_press_start by blast
qed

text \<open>
  A press that is held for 1.4 s and watched by the monitor: the press starts at 10 ms,
  the monitor runs at 100, 1100 and 1200 ms, the button is released at 1300 ms and
  pressed again at 1400 ms. Exactly one long press is produced, and the second press
  start is the step that clears the latch.
\<close>

theorem long_press_at_most_once_witness:
  "press_start (rotary_init True) (Isr 10 False True True) \<and>
   no_press_start (fst (rotary_step (rotary_init True) (Isr 10 False True True)))
     [Monitor 100, Monitor 1100, Monitor 1200, Isr 1300 True True True] \<and>
   long_presses (snd (rotary_run (rotary_init True)
     [Isr 10 False True True, Monitor 100, Monitor 1100, Monitor 1200,
      Isr 1300 True True True])) = 1 \<and>
   g_long_press_sent (fst (rotary_run (rotary_init True)
     [Isr 10 False True True, Monitor 100, Monitor 1100, Monitor 1200,
      Isr 1300 True True True])) \<and>
   \<not> g_long_press_sent (fst (rotary_step (fst (rotary_run (rotary_init True)
     [Isr 10 False True True, Monitor 100, Monitor 1100, Monitor 1200,
      Isr 1300 True True True])) (Isr 1400 False True True))) \<and>
   press_start (fst (rotary_run (rotary_init True)
     [Isr 10 False True True, Monitor 100, Monitor 1100, Monitor 1200,
      Isr 1300 True True True])) (Isr 1400 False True True)"
proof -
  let ?r = "rotary_init True"
  let ?as = "[Monitor 100, Monitor 1100, Monitor 1200, Isr 1300 True True True]"
  let ?r' = "fst (rotary_run ?r (Isr 10 False True True # ?as))"
  have h1: "press_start ?r (Isr 10 False True True)"
    by (simp add: rotary_defs)
  have h2: "no_press_start (fst (rotary_step ?r (Isr 10 False True True))) ?as"
    by (simp add: rotary_defs)
  have h3: "long_presses (snd (rotary_run ?r (Isr 10 False True True # ?as))) \<ge> 1"
    by (simp add: rotary_defs)
  have h4: "g_long_press_sent ?r'"
    by (simp add: rotary_defs)
  have h5: "\<not> g_long_press_sent (fst (rotary_step ?r' (Isr 1400 False True True)))"
    by (simp add: rotary_defs)
  from long_press_at_most_once
         [of ?r "Isr 10 False True True" ?as ?r' "Isr 1400 False True True"] h1 h2 h3 h4 h5
  show ?thesis by simp
qed

text \<open>
  The same bound with a preemptible monitor. A test followed at once by its report is the
  iteration of the task; with firings of the routine in between, a press (up to the next
  press start) still gets at most one long press, whatever the monitor had decided before.
\<close>

lemma monitor_iteration_split:
  "\<not> monitor_decided p \<Longrightarrow>
   fine_run p [Monitor_test now, Monitor_report] =
     (p\<lparr>globals := fst (button_long_press_monitor_task now (globals p))\<rparr>,
      snd (button_long_press_monitor_task now (globals p)))"
  by (simp add: button_long_press_monitor_task_def Let_def)

lemma fine_step_budget:
  "\<not> fine_press_start p a \<Longrightarrow>
   long_presses (snd (fine_step p a)) + fine_budget (fst (fine_step p a)) \<le> fine_budget p"
proof (cases a)
  case (Fire now sw clk dt)
  assume "\<not> fine_press_start p a"
  with Fire show ?thesis
    using isr_latch [of "globals p" now sw clk dt] isr_no_long_press [of now sw clk dt "globals p"]
    by (simp add: fine_budget_def)
next
  case (Monitor_test now)
  then show ?thesis by (simp add: fine_budget_def long_presses_def)
next
  case Monitor_report
  then show ?thesis
    by (simp add: fine_budget_def long_presses_def deliver_def mk_event_def)
qed

lemma fine_run_Cons:
  "fine_run p (a # as) =
     (fst (fine_run (fst (fine_step p a)) as),
      snd (fine_step p a) @ snd (fine_run (fst (fine_step p a)) as))"
  by (simp split: prod.splits)

lemma fine_run_budget:
  "fine_no_press_start p as \<Longrightarrow> long_presses (snd (fine_run p as)) \<le> fine_budget p"
proof (induction as arbitrary: p)
  case Nil
  then show ?case by (simp add: long_presses_def)
next
  case (Cons a as)
  from Cons.prems have a: "\<not> fine_press_start p a"
    and rest: "fine_no_press_start (fst (fine_step p a)) as"
    by simp_all
  have "long_presses (snd (fine_run p (a # as))) =
        long_presses (snd (fine_step p a)) +
        long_presses (snd (fine_run (fst (fine_step p a)) as))"
    by (simp only: fine_run_Cons snd_conv long_presses_append)
  with Cons.IH [OF rest] fine_step_budget [OF a] show ?case
    by simp
qed

lemma preempted_monitor_at_most_once:
  "fine_press_start p a \<Longrightarrow> fine_no_press_start (fst (fine_step p a)) as \<Longrightarrow>
   long_presses (snd (fine_run p (a # as))) \<le> 1"
proof -
  assume ps: "fine_press_start p a" and rest: "fine_no_press_start (fst (fine_step p a)) as"
  from ps have "long_presses (snd (fine_step p a)) = 0"
    by (cases a) (simp_all add: isr_no_long_press)
  moreover have "long_presses (snd (fine_run (fst (fine_step p a)) as)) \<le> 1"
    using fine_run_budget [OF rest] by (simp add: fine_budget_def split: if_splits)
  ultimately show ?thesis
    by (simp only: fine_run_Cons snd_conv long_presses_append)
qed

text \<open>
  Neither the routine nor the monitor ever sends a \<^verbatim>\<open>BTN_EVENT_RELEASE\<close>: for the rotary
  button that event reaches the state machine only through a direct call.
\<close>

lemma rotary_sends_no_release:
  "e \<in> set (snd (rotary_step r a)) \<Longrightarrow> event e \<noteq> BTN_EVENT_RELEASE"
  by (cases a)
     (auto simp add: rotary_encoder_isr_def button_long_press_monitor_task_def Let_def
        deliver_def mk_event_def split: if_splits)

section \<open>Properties of the mode state machine\<close>

subsection \<open>Sequencing\<close>

declare do_all.simps(2) [simp del]

lemma do_all_Cons:
  "do_all (a # as) s =
     (fst (do_all as (fst (a s))), snd (a s) @ snd (do_all as (fst (a s))))"
  by (simp add: do_all.simps(2) split: prod.splits)

lemma fst_modify: "fst (modify f s) = f s" by (simp add: modify_def)
lemma snd_modify: "snd (modify f s) = []" by (simp add: modify_def)
lemma fst_emit: "fst (emit fx s) = s" by (simp add: emit_def)
lemma snd_emit: "snd (emit fx s) = fx" by (simp add: emit_def)
lemma fst_send: "fst (send_display_notification ty t st d p s) = s"
  by (simp add: send_display_notification_def)
lemma fst_call_on_mode_change: "fst (call_on_mode_change old new s) = s"
  by (simp add: call_on_mode_change_def)
lemma fst_start_timer: "fst (start_station_tune_timer s) = s\<lparr>g_station_tune_timer := True\<rparr>"
  by (simp add: start_station_tune_timer_def modify_def)

lemmas fst_acts = do_all_Cons fst_modify fst_emit fst_send fst_call_on_mode_change
  fst_start_timer

lemma mode_code_roundtrip: "mode_of_code (mode_code m) = Some m"
  by (cases m) (simp_all add: mode_of_code_def)

lemma band_code_roundtrip: "band_of_code (band_code b) = Some b"
  by (cases b) (simp_all add: band_of_code_def)

lemma mode_code_zero: "(mode_code m = 0) = (m = MODE_OFF)"
  by (cases m) simp_all

lemma save_keeps_mode_inv: "mode_inv s \<Longrightarrow> mode_inv (fst (save_to_nvs e s))"
  by (cases "nvs_open_ok e")
     (auto simp add: save_to_nvs_def mode_inv_def power_mode_consistent_def store_codes_ok_def
      store_power_mode_ok_def mode_code_roundtrip band_code_roundtrip mode_code_zero)

lemma set_power_mode_inv: "mode_inv s \<Longrightarrow> mode_inv (fst (stereo_state_set_power e on s))"
  apply (simp add: stereo_state_set_power_def fst_acts)
  apply (intro conjI impI save_keeps_mode_inv)
  apply (simp_all add: mode_inv_def power_mode_consistent_def)
  done

lemma auto_power_on_mode_inv:
  "mode_inv s \<Longrightarrow> t \<noteq> MODE_OFF \<Longrightarrow> mode_inv (fst (auto_power_on_if_off e t reason s))"
  apply (simp add: auto_power_on_if_off_def fst_acts Let_def)
  apply (intro conjI impI save_keeps_mode_inv)
  apply (simp_all add: mode_inv_def power_mode_consistent_def)
  done

lemma streaming_mode_inv:
  "mode_inv s \<Longrightarrow> mode_inv (fst (stereo_state_a2dp_streaming e b s))"
  apply (simp add: stereo_state_a2dp_streaming_def fst_acts)
  apply (intro conjI impI auto_power_on_mode_inv)
  apply (simp_all add: mode_inv_def power_mode_consistent_def)
  done

lemma call_status_mode_inv:
  "mode_inv s \<Longrightarrow> mode_inv (fst (stereo_state_hfp_call_status e a c s))"
  apply (simp add: stereo_state_hfp_call_status_def fst_acts)
  apply (intro conjI impI save_keeps_mode_inv auto_power_on_mode_inv)
  apply (simp_all add: mode_inv_def power_mode_consistent_def)
  done

lemma mode_inv_timer_upd: "mode_inv (s\<lparr>g_station_tune_timer := b\<rparr>) = mode_inv s"
  by (simp add: mode_inv_def power_mode_consistent_def)

lemma timer_mode_inv:
  "mode_inv s \<Longrightarrow> mode_inv (fst (station_tune_timer_callback e s))"
  apply (simp add: station_tune_timer_callback_def fst_acts mode_inv_timer_upd)
  apply (intro conjI impI save_keeps_mode_inv)
  apply (simp_all add: mode_inv_def power_mode_consistent_def)
  done

lemma bt_volume_mode_inv:
  "mode_inv s \<Longrightarrow> mode_inv (fst (on_bt_volume_changed t v s))"
  by (cases t) (simp_all add: on_bt_volume_changed_def fst_acts mode_inv_def power_mode_consistent_def)


lemma radio_mode_inv:
  "mode_inv s \<Longrightarrow> mode_inv (fst (handle_radio_mode e ev s))"
  apply (simp add: handle_radio_mode_def browse_step_def radio_volume_step_def fst_acts Let_def
           split: button_event_type.splits option.splits)
  apply (intro conjI impI allI save_keeps_mode_inv)
  apply (simp_all add: mode_inv_def power_mode_consistent_def)
  done

lemma bluetooth_mode_inv:
  "mode_inv s \<Longrightarrow> mode_inv (fst (handle_bluetooth_mode e ev s))"
  apply (simp add: handle_bluetooth_mode_def a2dp_volume_step_def fst_acts Let_def
           split: button_event_type.splits option.splits)
  apply (intro conjI impI allI save_keeps_mode_inv)
  apply (simp_all add: mode_inv_def power_mode_consistent_def)
  done

lemma phone_call_mode_inv:
  "mode_inv s \<Longrightarrow> g_current_mode s = MODE_PHONE_CALL \<Longrightarrow>
   mode_inv (fst (handle_phone_call_mode e ev s))"
  apply (simp add: handle_phone_call_mode_def call_volume_step_def fst_acts Let_def
           split: button_event_type.splits option.splits)
  apply (intro conjI impI allI save_keeps_mode_inv)
  apply (simp_all add: mode_inv_def power_mode_consistent_def)
  done

lemma handle_button_mode_inv:
  "mode_inv s \<Longrightarrow> mode_inv (fst (stereo_state_handle_button e ev s))"
  apply (simp add: stereo_state_handle_button_def handle_phonebook_mode_def fst_acts Let_def
           radio_mode_inv bluetooth_mode_inv phone_call_mode_inv
           split: stereo_mode.splits)
  apply (intro conjI impI allI save_keeps_mode_inv)
  apply (simp_all add: mode_inv_def power_mode_consistent_def)
  done


subsection \<open>Power and mode\<close>

lemma load_mode_inv:
  "mode_inv s \<Longrightarrow> \<exists>s'. load_from_nvs e s = Some s' \<and> mode_inv s'"
proof (cases "nvs_open_ok e")
  case False
  assume "mode_inv s"
  with False show ?thesis
    by (simp add: load_from_nvs_def mode_inv_def power_mode_consistent_def)
next
  case True
  assume inv: "mode_inv s"
  obtain m where m: "(case nvs_mode (nvs s) of None \<Rightarrow> Some (g_current_mode s)
                | Some c \<Rightarrow> mode_of_code c) = Some m"
    using inv by (cases "nvs_mode (nvs s)") (auto simp add: mode_inv_def store_codes_ok_def)
  obtain b where b: "(case nvs_radio_band (nvs s) of None \<Rightarrow> Some None
                | Some c \<Rightarrow> map_option Some (band_of_code c)) = Some b"
    using inv by (cases "nvs_radio_band (nvs s)") (auto simp add: mode_inv_def store_codes_ok_def)
  have pm: "(\<not> or_keep (map_option (\<lambda>v. v \<noteq> 0) (nvs_power_on (nvs s))) (g_powered_on s)) = (m = MODE_OFF)"
    using inv m
    by (cases "nvs_mode (nvs s)"; cases "nvs_power_on (nvs s)")
       (auto simp add: mode_inv_def store_power_mode_ok_def power_mode_consistent_def or_keep_def
          mode_of_code_def split: if_splits)
  show ?thesis
    using inv pm
    by (simp add: load_from_nvs_def True m b mode_inv_def power_mode_consistent_def)
qed


lemma Some_pairI: "P (fst r) \<Longrightarrow> \<exists>s' fx. Some r = Some (s', fx) \<and> P s'"
  by (cases r) simp

lemma load_bt_frame: "\<exists>d. fst (load_bt_device_settings e s) = s\<lparr>g_bt_devices := d\<rparr>"
proof (cases "nvs_open_bt_ok e")
  case True
  then show ?thesis by (simp add: load_bt_device_settings_def Let_def) (rule exI, rule refl)
next
  case False
  then have "fst (load_bt_device_settings e s) = s\<lparr>g_bt_devices := g_bt_devices s\<rparr>"
    by (simp add: load_bt_device_settings_def)
  then show ?thesis by (rule exI [of _ "g_bt_devices s"])
qed

lemma load_bt_mode_inv: "mode_inv s \<Longrightarrow> mode_inv (fst (load_bt_device_settings e s))"
proof -
  assume inv: "mode_inv s"
  obtain d where "fst (load_bt_device_settings e s) = s\<lparr>g_bt_devices := d\<rparr>"
    using load_bt_frame by blast
  with inv show ?thesis by (simp add: mode_inv_def power_mode_consistent_def)
qed

lemma save_bt_mode_inv: "mode_inv s \<Longrightarrow> mode_inv (fst (save_bt_device_settings e s))"
  by (cases "nvs_open_bt_ok e")
     (auto simp add: save_bt_device_settings_def mode_inv_def power_mode_consistent_def
        store_codes_ok_def store_power_mode_ok_def split: option.splits)

lemma bt_connected_mode_inv:
  "mode_inv s \<Longrightarrow> mode_inv (fst (stereo_state_bt_device_connected a s))"
  by (simp add: stereo_state_bt_device_connected_def fst_acts mode_inv_def
        power_mode_consistent_def Let_def split: option.splits)

lemma bt_disconnected_mode_inv:
  "mode_inv s \<Longrightarrow> mode_inv (fst (stereo_state_bt_device_disconnected e a s))"
proof (cases a)
  case None
  assume "mode_inv s"
  with None show ?thesis by (simp add: stereo_state_bt_device_disconnected_def)
next
  case (Some addr)
  assume inv: "mode_inv s"
  define idx where "idx = (case find_bt_device_by_mac s addr of
                        Some i \<Rightarrow> i | None \<Rightarrow> find_free_bt_device_slot s)"
  let ?s1 = "s\<lparr>g_bt_devices := (g_bt_devices s)(idx :=
               \<lparr>mac_addr = take 6 addr,
                dev_a2dp_volume = a2dp_volume (g_a2dp_state s),
                dev_hfp_speaker_volume = speaker_volume (g_hfp_state s),
                dev_hfp_mic_volume = mic_volume (g_hfp_state s),
                valid = True\<rparr>)\<rparr>"
  have "mode_inv ?s1"
    using inv by (simp add: mode_inv_def power_mode_consistent_def)
  then have "mode_inv (fst (save_bt_device_settings e ?s1))"
    by (rule save_bt_mode_inv)
  then have "mode_inv ((fst (save_bt_device_settings e ?s1))
                \<lparr>g_current_bt_device_mac := replicate 6 0\<rparr>)"
    by (simp add: mode_inv_def power_mode_consistent_def)
  then show ?thesis
    by (simp add: stereo_state_bt_device_disconnected_def Some fst_acts Let_def idx_def)
qed

lemma init_mode_inv:
  "mode_inv s \<Longrightarrow> \<exists>s' fx. stereo_state_init e c s = Some (s', fx) \<and> mode_inv s'"
proof -
  assume inv: "mode_inv s"
  let ?s0 = "init_defaults (case c of Some c \<Rightarrow> s\<lparr>g_config := c\<rparr> | None \<Rightarrow> s)"
  have "mode_inv ?s0"
    using inv
    by (cases c) (simp_all add: init_defaults_def mode_inv_def power_mode_consistent_def)
  then obtain s1 where s1: "load_from_nvs e ?s0 = Some s1" and inv1: "mode_inv s1"
    using load_mode_inv by blast
  let ?r = "do_all [
         load_bt_device_settings e,
         (\<lambda>s. emit [Audio (Bt_volume_control_init (a2dp_volume (g_a2dp_state s))
                  (speaker_volume (g_hfp_state s)) (mic_volume (g_hfp_state s)))] s),
         (\<lambda>s. if g_powered_on s \<and> g_current_mode s = MODE_RADIO then
                 send_display_notification DISPLAY_MODE_CHANGE (Text ''Radio'') None 2000 100 s
               else if \<not> g_powered_on s then
                 modify (\<lambda>s. s\<lparr>g_current_mode := MODE_OFF\<rparr>) s
               else (s, []))] s1"
  have eq: "stereo_state_init e c s = Some ?r"
    by (simp add: stereo_state_init_def s1)
  have "mode_inv (fst ?r)"
    using load_bt_mode_inv [OF inv1, of e]
    by (simp add: fst_acts mode_inv_def power_mode_consistent_def)
  then show ?thesis
    unfolding eq by (rule Some_pairI)
qed

lemma boot_mode_inv: "mode_inv s \<Longrightarrow> mode_inv (boot (nvs s))"
  by (simp add: boot_def mode_inv_def power_mode_consistent_def)

lemma set_mode_store_ok:
  "store_codes_ok (nvs s) \<Longrightarrow> store_codes_ok (nvs (fst (stereo_state_set_mode e m s)))"
  by (simp add: stereo_state_set_mode_def fst_acts save_to_nvs_def store_codes_ok_def
        mode_code_roundtrip band_code_roundtrip Let_def)

lemma react_mode_inv:
  "mode_inv s \<Longrightarrow> \<not> is_set_mode x \<Longrightarrow> \<exists>s' fx. react e x s = Some (s', fx) \<and> mode_inv s'"
proof (cases x)
  case Restart
  assume "mode_inv s"
  with Restart show ?thesis by (simp add: boot_mode_inv)
next
  case (Call_init c)
  assume "mode_inv s"
  with Call_init show ?thesis using init_mode_inv [of s e c] by simp
next
  case (Call_handle_button ev)
  assume "mode_inv s"
  then show ?thesis
    unfolding Call_handle_button react.simps
    by (intro Some_pairI handle_button_mode_inv)
next
  case (Call_set_power on)
  assume "mode_inv s"
  then show ?thesis
    unfolding Call_set_power react.simps
    by (intro Some_pairI set_power_mode_inv)
next
  case (Call_set_mode m)
  assume "\<not> is_set_mode x"
  with Call_set_mode show ?thesis by simp
next
  case (Call_hfp_call_status a c)
  assume "mode_inv s"
  then show ?thesis
    unfolding Call_hfp_call_status react.simps
    by (intro Some_pairI call_status_mode_inv)
next
  case (Call_a2dp_streaming b)
  assume "mode_inv s"
  then show ?thesis
    unfolding Call_a2dp_streaming react.simps
    by (intro Some_pairI streaming_mode_inv)
next
  case Tune_timer_expires
  assume inv: "mode_inv s"
  show ?thesis
    unfolding Tune_timer_expires react.simps
  proof (rule Some_pairI)
    show "mode_inv (fst (if g_station_tune_timer s then station_tune_timer_callback e s else (s, [])))"
      using inv timer_mode_inv [OF inv, of e] by simp
  qed
next
  case (Bt_volume_changed t v)
  assume "mode_inv s"
  then show ?thesis
    unfolding Bt_volume_changed react.simps
    by (intro Some_pairI bt_volume_mode_inv)
next
  case (Call_bt_device_connected a)
  assume "mode_inv s"
  then show ?thesis
    unfolding Call_bt_device_connected react.simps
    by (intro Some_pairI bt_connected_mode_inv)
next
  case (Call_bt_device_disconnected a)
  assume "mode_inv s"
  then show ?thesis
    unfolding Call_bt_device_disconnected react.simps
    by (intro Some_pairI bt_disconnected_mode_inv)
next
  case Call_save
  assume "mode_inv s"
  then show ?thesis
    unfolding Call_save react.simps stereo_state_save_def
    by (intro Some_pairI save_keeps_mode_inv)
qed

lemma run_mode_inv:
  "mode_inv s \<Longrightarrow> list_all (\<lambda>(e, x). \<not> is_set_mode x) xs \<Longrightarrow>
   \<exists>s'. run s xs = Some s' \<and> mode_inv s'"
proof (induction xs arbitrary: s)
  case Nil
  then show ?case by simp
next
  case (Cons ex xs)
  obtain e x where ex: "ex = (e, x)" by (cases ex)
  with Cons.prems have nx: "\<not> is_set_mode x"
    and rest: "list_all (\<lambda>(e, x). \<not> is_set_mode x) xs"
    by simp_all
  from react_mode_inv [OF Cons.prems(1) nx]
  obtain s1 fx where r: "react e x s = Some (s1, fx)" and inv1: "mode_inv s1"
    by blast
  from Cons.IH [OF inv1 rest] obtain s' where "run s1 xs = Some s'" and "mode_inv s'"
    by blast
  with ex r show ?case by simp
qed

lemma fresh_mode_inv: "mode_inv (boot nvs_empty)"
  by (simp add: boot_def nvs_empty_def mode_inv_def power_mode_consistent_def
        store_codes_ok_def store_power_mode_ok_def)

text \<open>
  Claim C1, as the code has it. Start from a first boot with an empty store and let
  anything happen in any order, any number of times: restarts, initialisation, button
  events, \<^verbatim>\<open>stereo_state_set_power\<close>, call and streaming notifications, the tune timer,
  volume notifications, with any answers of the collaborators, but no call of
  \<^verbatim>\<open>stereo_state_set_mode\<close>. Then every operation returns, and in the state reached
  \<^verbatim>\<open>g_powered_on\<close> is false exactly when the mode is \<^verbatim>\<open>MODE_OFF\<close>.
\<close>

theorem power_mode_invariant:
  "list_all (\<lambda>(e, x). \<not> is_set_mode x) xs \<Longrightarrow>
   \<exists>s. run (boot nvs_empty) xs = Some s \<and> power_mode_consistent s"
  using run_mode_inv [OF fresh_mode_inv] by (auto simp add: mode_inv_def)


theorem power_mode_invariant_witness:
  "list_all (\<lambda>(e, x). \<not> is_set_mode x)
     [(ok_env, Call_init (Some full_config)),
      (ok_env, Call_handle_button (mk_event BTN_ROTARY BTN_EVENT_PRESS)),
      (ok_env, Call_hfp_call_status True None)] \<and>
   (\<exists>s. run (boot nvs_empty)
     [(ok_env, Call_init (Some full_config)),
      (ok_env, Call_handle_button (mk_event BTN_ROTARY BTN_EVENT_PRESS)),
      (ok_env, Call_hfp_call_status True None)] = Some s \<and> power_mode_consistent s)"
proof -
  have h: "list_all (\<lambda>(e, x). \<not> is_set_mode x)
     [(ok_env, Call_init (Some full_config)),
      (ok_env, Call_handle_button (mk_event BTN_ROTARY BTN_EVENT_PRESS)),
      (ok_env, Call_hfp_call_status True None)]"
    by simp
  from power_mode_invariant [OF h] h show ?thesis by blast
qed

lemmas action_defs = modify_def emit_def send_display_notification_def call_on_mode_change_def
  save_to_nvs_def start_station_tune_timer_def

lemmas init_defs = stereo_state_init_def load_from_nvs_def init_defaults_def boot_def
  nvs_empty_def ok_env_def or_keep_def full_config_def default_presets_def
  load_bt_device_settings_def MAX_BT_DEVICES_def

lemma set_mode_runs:
  "map_option (\<lambda>s. (g_powered_on s, g_current_mode s))
     (run (boot nvs_empty) [(ok_env, Call_init None), (ok_env, Call_set_mode MODE_RADIO)])
   = Some (False, MODE_RADIO) \<and>
   map_option (\<lambda>s. (g_powered_on s, g_current_mode s))
     (run (boot nvs_empty)
        [(ok_env, Call_init None), (ok_env, Call_set_power True),
         (ok_env, Call_set_mode MODE_OFF)])
   = Some (True, MODE_OFF)"
  by code_simp

text \<open>
  The claim as written fails in both directions: \<^verbatim>\<open>stereo_state_set_mode\<close> stores the
  mode and leaves \<^verbatim>\<open>g_powered_on\<close> alone. After initialisation on a fresh store, one call
  with \<^verbatim>\<open>MODE_RADIO\<close> gives a state that is powered off in mode Radio; after power on, one
  call with \<^verbatim>\<open>MODE_OFF\<close> gives a state that is powered on in mode Off.
\<close>

theorem set_mode_breaks_power_mode:
  "(\<exists>s. run (boot nvs_empty)
          [(ok_env, Call_init None), (ok_env, Call_set_mode MODE_RADIO)] = Some s \<and>
        \<not> g_powered_on s \<and> g_current_mode s = MODE_RADIO \<and> \<not> power_mode_consistent s) \<and>
   (\<exists>s. run (boot nvs_empty)
          [(ok_env, Call_init None), (ok_env, Call_set_power True),
           (ok_env, Call_set_mode MODE_OFF)] = Some s \<and>
        g_powered_on s \<and> g_current_mode s = MODE_OFF \<and> \<not> power_mode_consistent s)"
  using set_mode_runs by (auto simp add: power_mode_consistent_def)

subsection \<open>Power\<close>

lemma save_frame:
  "g_powered_on (fst (save_to_nvs e s)) = g_powered_on s \<and>
   g_current_mode (fst (save_to_nvs e s)) = g_current_mode s \<and>
   g_mode_before_call (fst (save_to_nvs e s)) = g_mode_before_call s"
  by (simp add: save_to_nvs_def)

lemma set_power_sets_power: "g_powered_on (fst (stereo_state_set_power e on s)) = on"
  by (simp add: stereo_state_set_power_def fst_acts save_frame)

text \<open>
  Claim C10. \<^verbatim>\<open>stereo_state_set_power\<close> called with the current value of
  \<^verbatim>\<open>g_powered_on\<close> returns at once: the state, store included, is the same, and nothing
  is displayed, committed or reported to the mode-change callback. So a second call with
  the same argument, right after a first one, does nothing.
\<close>

theorem set_power_same_is_noop:
  "(on = g_powered_on s \<longrightarrow> stereo_state_set_power e on s = (s, [])) \<and>
   stereo_state_set_power e' on (fst (stereo_state_set_power e on s)) =
     (fst (stereo_state_set_power e on s), [])"
  by (simp add: stereo_state_set_power_def [of e'] set_power_sets_power)
     (simp add: stereo_state_set_power_def)

theorem set_power_same_is_noop_witness:
  "False = g_powered_on (boot nvs_empty) \<and>
   stereo_state_set_power ok_env False (boot nvs_empty) = (boot nvs_empty, []) \<and>
   stereo_state_set_power ok_env True (fst (stereo_state_set_power ok_env True (boot nvs_empty))) =
     (fst (stereo_state_set_power ok_env True (boot nvs_empty)), [])"
proof -
  have h: "False = g_powered_on (boot nvs_empty)" by (simp add: boot_def)
  from set_power_same_is_noop [of False "boot nvs_empty" ok_env ok_env]
       set_power_same_is_noop [of True "boot nvs_empty" ok_env ok_env] h
  show ?thesis by simp
qed

subsection \<open>Effects of the primitive actions\<close>

lemma snd_send:
  "snd (send_display_notification ty t st d p s) =
     (if display_handler (g_config s) then
        [Display \<lparr>n_type = ty, n_text = cut_text t,
           n_subtext = (case st of None \<Rightarrow> [] | Some x \<Rightarrow> take 63 x),
           duration_ms = d, priority = p\<rparr>]
      else [])"
  by (simp add: send_display_notification_def)

lemma snd_call_on_mode_change:
  "snd (call_on_mode_change old new s) =
     (if on_mode_change (g_config s) then [Mode_change old new] else [])"
  by (simp add: call_on_mode_change_def)

lemmas snd_acts = snd_modify snd_emit snd_send snd_call_on_mode_change

subsection \<open>Voice assistant\<close>

text \<open>
  Claim C9, as the code has it. A press of the start button (\<^verbatim>\<open>BTN_BAND_UM\<close>) while a
  session is already active, or while the mode is neither Radio nor Bluetooth (Off
  included), changes nothing in the state and has no effect at all: no call into the audio
  stack, and no display notification either. The source only logs a warning there. The
  notification that reports a failure is sent in one case only, and always then (a display
  handler being registered): when the request is accepted, no session being active in mode
  Radio or Bluetooth, and the voice-recognition call into the audio stack fails; the state
  is unchanged then as well.
\<close>

theorem voice_start_rejected_silently:
  "button ev = BTN_BAND_UM \<Longrightarrow> event ev = BTN_EVENT_PRESS \<Longrightarrow>
   (g_voice_recognition_active s \<or>
      (g_current_mode s \<noteq> MODE_BLUETOOTH \<and> g_current_mode s \<noteq> MODE_RADIO) \<longrightarrow>
    stereo_state_handle_button e ev s = (s, [])) \<and>
   (voice_failure_notice \<in> set (snd (stereo_state_handle_button e ev s)) \<longleftrightarrow>
      display_handler (g_config s) \<and> \<not> g_voice_recognition_active s \<and>
      (g_current_mode s = MODE_BLUETOOTH \<or> g_current_mode s = MODE_RADIO) \<and> \<not> voice_ok e) \<and>
   (\<not> g_voice_recognition_active s \<and>
      (g_current_mode s = MODE_BLUETOOTH \<or> g_current_mode s = MODE_RADIO) \<and> \<not> voice_ok e \<longrightarrow>
    stereo_state_handle_button e ev s =
      (s, Audio Start_voice_recognition #
            (if display_handler (g_config s) then [voice_failure_notice] else [])))"
  by (auto simp add: stereo_state_handle_button_def voice_failure_notice_def do_all_Cons
        modify_def emit_def send_display_notification_def)

lemma voice_start_runs:
  "map_option (\<lambda>s. (display_handler (g_config s), g_current_mode s,
       g_voice_recognition_active s))
     (run (boot nvs_empty) [(ok_env, Call_init (Some full_config))])
   = Some (True, MODE_OFF, False) \<and>
   map_option (\<lambda>s. (display_handler (g_config s), g_current_mode s,
       g_voice_recognition_active s))
     (run (boot nvs_empty)
        [(ok_env, Call_init (Some full_config)),
         (ok_env, Call_handle_button (mk_event BTN_ROTARY BTN_EVENT_PRESS))])
   = Some (True, MODE_RADIO, False)"
  by code_simp

text \<open>
  After initialisation with both callbacks registered the unit is off: the start button is
  rejected and nothing is displayed. After power on it is in mode Radio: the request is
  accepted, and the failure is displayed when the audio stack refuses it, and not when it
  complies.
\<close>

theorem voice_start_rejected_silently_witness:
  "button (mk_event BTN_BAND_UM BTN_EVENT_PRESS) = BTN_BAND_UM \<and>
   event (mk_event BTN_BAND_UM BTN_EVENT_PRESS) = BTN_EVENT_PRESS \<and>
   (\<exists>s. run (boot nvs_empty) [(ok_env, Call_init (Some full_config))] = Some s \<and>
        display_handler (g_config s) \<and>
        g_current_mode s \<noteq> MODE_BLUETOOTH \<and> g_current_mode s \<noteq> MODE_RADIO \<and>
        stereo_state_handle_button ok_env (mk_event BTN_BAND_UM BTN_EVENT_PRESS) s = (s, []) \<and>
        voice_failure_notice \<notin>
          set (snd (stereo_state_handle_button refusing_env
                 (mk_event BTN_BAND_UM BTN_EVENT_PRESS) s))) \<and>
   (\<exists>s. run (boot nvs_empty)
          [(ok_env, Call_init (Some full_config)),
           (ok_env, Call_handle_button (mk_event BTN_ROTARY BTN_EVENT_PRESS))] = Some s \<and>
        display_handler (g_config s) \<and> \<not> g_voice_recognition_active s \<and>
        g_current_mode s = MODE_RADIO \<and> \<not> voice_ok refusing_env \<and>
        voice_failure_notice \<in>
          set (snd (stereo_state_handle_button refusing_env
                 (mk_event BTN_BAND_UM BTN_EVENT_PRESS) s)) \<and>
        stereo_state_handle_button refusing_env (mk_event BTN_BAND_UM BTN_EVENT_PRESS) s =
          (s, [Audio Start_voice_recognition, voice_failure_notice]) \<and>
        voice_failure_notice \<notin>
          set (snd (stereo_state_handle_button ok_env
                 (mk_event BTN_BAND_UM BTN_EVENT_PRESS) s)))"
proof -
  let ?ev = "mk_event BTN_BAND_UM BTN_EVENT_PRESS"
  have h1: "button ?ev = BTN_BAND_UM" and h2: "event ?ev = BTN_EVENT_PRESS"
    by (simp_all add: mk_event_def)
  have r: "\<not> voice_ok refusing_env" and k: "voice_ok ok_env"
    by (simp_all add: refusing_env_def ok_env_def)
  obtain s0 where s0: "run (boot nvs_empty) [(ok_env, Call_init (Some full_config))] = Some s0"
    and d0: "display_handler (g_config s0)" and m0: "g_current_mode s0 = MODE_OFF"
    using voice_start_runs by auto
  obtain s1 where s1: "run (boot nvs_empty)
          [(ok_env, Call_init (Some full_config)),
           (ok_env, Call_handle_button (mk_event BTN_ROTARY BTN_EVENT_PRESS))] = Some s1"
    and d1: "display_handler (g_config s1)" and m1: "g_current_mode s1 = MODE_RADIO"
    and a1: "\<not> g_voice_recognition_active s1"
    using voice_start_runs by auto
  from voice_start_rejected_silently [OF h1 h2, of s0 ok_env]
       voice_start_rejected_silently [OF h1 h2, of s0 refusing_env] d0 m0
  have p0: "stereo_state_handle_button ok_env ?ev s0 = (s0, []) \<and>
        voice_failure_notice \<notin> set (snd (stereo_state_handle_button refusing_env ?ev s0))"
    by simp
  from voice_start_rejected_silently [OF h1 h2, of s1 refusing_env]
       voice_start_rejected_silently [OF h1 h2, of s1 ok_env] d1 m1 a1 r k
  have p1: "voice_failure_notice \<in> set (snd (stereo_state_handle_button refusing_env ?ev s1)) \<and>
        stereo_state_handle_button refusing_env ?ev s1 =
          (s1, [Audio Start_voice_recognition, voice_failure_notice]) \<and>
        voice_failure_notice \<notin> set (snd (stereo_state_handle_button ok_env ?ev s1))"
    by simp
  from h1 h2 s0 d0 m0 p0 s1 d1 m1 a1 r p1 show ?thesis
    by (intro conjI exI [of _ s0] exI [of _ s1]) simp_all
qed

text \<open>
  The claim as written fails in its second half: with a display handler registered and the
  unit powered off after initialisation, the rejected start request produces no
  notification.
\<close>

theorem voice_start_rejection_not_displayed:
  "\<exists>s. run (boot nvs_empty) [(ok_env, Call_init (Some full_config))] = Some s \<and>
       \<not> g_powered_on s \<and> display_handler (g_config s) \<and>
       snd (stereo_state_handle_button ok_env (mk_event BTN_BAND_UM BTN_EVENT_PRESS) s) = []"
  by (simp add: init_defs action_defs do_all_Cons stereo_state_handle_button_def mk_event_def)

subsection \<open>Call volume\<close>

text \<open>
  Claim C3 does not hold of the code. After initialisation (A2DP volume 10, call speaker
  volume 12) an incoming call puts the unit in PhoneCall mode. A clockwise rotation then
  raises the A2DP volume to 11, leaves the call speaker volume at 12, shows 11 as
  "Call Volume" and passes 12 to the audio stack as the new speaker volume.
\<close>

theorem call_rotation_steps_a2dp_volume:
  "\<exists>s. run (boot nvs_empty)
         [(ok_env, Call_init (Some full_config)), (ok_env, Call_hfp_call_status True None)]
         = Some s \<and>
       g_current_mode s = MODE_PHONE_CALL \<and>
       a2dp_volume (g_a2dp_state s) = 10 \<and> speaker_volume (g_hfp_state s) = 12 \<and>
       a2dp_volume (g_a2dp_state (fst (stereo_state_handle_button ok_env
          (mk_event BTN_ROTARY BTN_EVENT_ROTARY_CW) s))) = 11 \<and>
       speaker_volume (g_hfp_state (fst (stereo_state_handle_button ok_env
          (mk_event BTN_ROTARY BTN_EVENT_ROTARY_CW) s))) = 12 \<and>
       snd (stereo_state_handle_button ok_env (mk_event BTN_ROTARY BTN_EVENT_ROTARY_CW) s) =
         [Display \<lparr>n_type = DISPLAY_VOLUME, n_text = Text_d 11, n_subtext = ''Call Volume'',
            duration_ms = 1000, priority = 200\<rparr>,
          Audio (Set_hfp_speaker_volume 12)]"
  by (simp add: init_defs action_defs do_all_Cons stereo_state_handle_button_def mk_event_def
        stereo_state_hfp_call_status_def auto_power_on_if_off_def handle_phone_call_mode_def
        call_volume_step_def)

lemma phone_call_rotation_keeps_hfp_state:
  "g_current_mode s = MODE_PHONE_CALL \<Longrightarrow>
   event ev = BTN_EVENT_ROTARY_CW \<or> event ev = BTN_EVENT_ROTARY_CCW \<Longrightarrow>
   g_hfp_state (fst (stereo_state_handle_button e ev s)) = g_hfp_state s"
  by (auto simp add: stereo_state_handle_button_def handle_phone_call_mode_def
        call_volume_step_def fst_acts)

subsection \<open>Incoming call while powered off\<close>










subsection \<open>Volumes\<close>

lemma vol_inc_le: "(v :: u8) < 15 \<Longrightarrow> v + 1 \<le> 15"
  by (rule inc_le)

lemma vol_dec_le: "(v :: u8) \<le> 15 \<Longrightarrow> 0 < v \<Longrightarrow> v - 1 \<le> 15"
  by unat_arith

lemma vol_up_le: "v \<le> 15 \<Longrightarrow> vol_up v \<le> 15"
  by (simp add: vol_up_def vol_inc_le)

lemma vol_down_le: "v \<le> 15 \<Longrightarrow> vol_down v \<le> 15"
  by (simp add: vol_down_def vol_dec_le)

lemma vol_up_top: "vol_up 15 = 15"
  by (simp add: vol_up_def)

lemmas vol_simps = vol_inv_def volumes_in_range_def stored_volume_ok_def vol_up_le vol_down_le
  vol_inc_le vol_dec_le

lemma load_bt_vol_inv: "vol_inv s \<Longrightarrow> vol_inv (fst (load_bt_device_settings e s))"
proof (cases "nvs_open_bt_ok e")
  case False
  assume "vol_inv s"
  with False show ?thesis by (simp add: load_bt_device_settings_def)
next
  case True
  assume inv: "vol_inv s"
  have dev: "\<And>i. device_volumes_ok (g_bt_devices s i)"
    and st: "\<And>i. stored_device_ok (nvs_bt_dev (nvs s) i)"
    using inv by (simp_all add: vol_inv_def)
  have "device_volumes_ok
          (case nvs_bt_dev (nvs s) i of
             Some (mac, a, sp, m) \<Rightarrow>
               \<lparr>mac_addr = mac, dev_a2dp_volume = a, dev_hfp_speaker_volume = sp,
                dev_hfp_mic_volume = m, valid = True\<rparr>
           | None \<Rightarrow> g_bt_devices s i)" for i
    using dev [of i] st [of i]
    by (cases "nvs_bt_dev (nvs s) i") (auto simp add: device_volumes_ok_def stored_device_ok_def)
  with inv dev show ?thesis
    by (simp add: load_bt_device_settings_def True Let_def vol_simps)
qed

lemma save_bt_vol_inv: "vol_inv s \<Longrightarrow> vol_inv (fst (save_bt_device_settings e s))"
proof (cases "nvs_open_bt_ok e")
  case False
  assume "vol_inv s"
  with False show ?thesis by (simp add: save_bt_device_settings_def)
next
  case True
  assume inv: "vol_inv s"
  have dev: "\<And>i. device_volumes_ok (g_bt_devices s i)"
    using inv by (simp add: vol_inv_def)
  have "\<And>i. stored_device_ok
          (Some (mac_addr (g_bt_devices s i), dev_a2dp_volume (g_bt_devices s i),
                 dev_hfp_speaker_volume (g_bt_devices s i),
                 dev_hfp_mic_volume (g_bt_devices s i)))"
    using dev by (simp add: stored_device_ok_def device_volumes_ok_def)
  with inv show ?thesis
    by (simp add: save_bt_device_settings_def True vol_simps store_codes_ok_def)
qed

lemma bt_connected_vol_inv:
  "vol_inv s \<Longrightarrow> vol_inv (fst (stereo_state_bt_device_connected a s))"
proof -
  assume inv: "vol_inv s"
  have dev: "\<And>i. dev_a2dp_volume (g_bt_devices s i) \<le> 15 \<and>
                  dev_hfp_speaker_volume (g_bt_devices s i) \<le> 15 \<and>
                  dev_hfp_mic_volume (g_bt_devices s i) \<le> 15"
    using inv by (simp add: vol_inv_def device_volumes_ok_def)
  from inv show ?thesis
    by (simp add: stereo_state_bt_device_connected_def fst_acts vol_simps dev Let_def
          split: option.splits)
qed

lemma bt_disconnected_vol_inv:
  "vol_inv s \<Longrightarrow> vol_inv (fst (stereo_state_bt_device_disconnected e a s))"
proof (cases a)
  case None
  assume "vol_inv s"
  with None show ?thesis by (simp add: stereo_state_bt_device_disconnected_def)
next
  case (Some addr)
  assume inv: "vol_inv s"
  define idx where "idx = (case find_bt_device_by_mac s addr of
                        Some i \<Rightarrow> i | None \<Rightarrow> find_free_bt_device_slot s)"
  let ?s1 = "s\<lparr>g_bt_devices := (g_bt_devices s)(idx :=
               \<lparr>mac_addr = take 6 addr,
                dev_a2dp_volume = a2dp_volume (g_a2dp_state s),
                dev_hfp_speaker_volume = speaker_volume (g_hfp_state s),
                dev_hfp_mic_volume = mic_volume (g_hfp_state s),
                valid = True\<rparr>)\<rparr>"
  have "vol_inv ?s1"
    using inv by (simp add: vol_simps device_volumes_ok_def)
  then have "vol_inv (fst (save_bt_device_settings e ?s1))"
    by (rule save_bt_vol_inv)
  then have "vol_inv ((fst (save_bt_device_settings e ?s1))
                \<lparr>g_current_bt_device_mac := replicate 6 0\<rparr>)"
    by (simp add: vol_simps)
  then show ?thesis
    by (simp add: stereo_state_bt_device_disconnected_def Some fst_acts Let_def idx_def)
qed

lemma save_keeps_vol_inv: "vol_inv s \<Longrightarrow> vol_inv (fst (save_to_nvs e s))"
  by (cases "nvs_open_ok e")
     (auto simp add: save_to_nvs_def vol_simps store_codes_ok_def
        mode_code_roundtrip band_code_roundtrip)

lemma vol_inv_timer_upd: "vol_inv (s\<lparr>g_station_tune_timer := b\<rparr>) = vol_inv s"
  by (simp add: vol_simps)

lemma timer_vol_inv: "vol_inv s \<Longrightarrow> vol_inv (fst (station_tune_timer_callback e s))"
  apply (simp add: station_tune_timer_callback_def fst_acts vol_inv_timer_upd)
  apply (intro conjI impI save_keeps_vol_inv)
  apply (simp_all add: vol_simps)
  done

lemma radio_vol_inv: "vol_inv s \<Longrightarrow> vol_inv (fst (handle_radio_mode e ev s))"
  apply (simp add: handle_radio_mode_def browse_step_def radio_volume_step_def fst_acts Let_def
           split: button_event_type.splits option.splits)
  apply (intro conjI impI allI save_keeps_vol_inv)
  apply (simp_all add: vol_simps)
  done

lemma bluetooth_vol_inv: "vol_inv s \<Longrightarrow> vol_inv (fst (handle_bluetooth_mode e ev s))"
  apply (simp add: handle_bluetooth_mode_def a2dp_volume_step_def fst_acts Let_def
           split: button_event_type.splits option.splits)
  apply (intro conjI impI allI save_keeps_vol_inv)
  apply (simp_all add: vol_simps)
  done

lemma phone_call_vol_inv: "vol_inv s \<Longrightarrow> vol_inv (fst (handle_phone_call_mode e ev s))"
  apply (simp add: handle_phone_call_mode_def call_volume_step_def fst_acts Let_def
           split: button_event_type.splits option.splits)
  apply (intro conjI impI allI save_keeps_vol_inv)
  apply (simp_all add: vol_simps)
  done

lemma handle_button_vol_inv:
  "vol_inv s \<Longrightarrow> vol_inv (fst (stereo_state_handle_button e ev s))"
  apply (simp add: stereo_state_handle_button_def handle_phonebook_mode_def fst_acts Let_def
           radio_vol_inv bluetooth_vol_inv phone_call_vol_inv
           split: stereo_mode.splits)
  apply (intro conjI impI allI save_keeps_vol_inv)
  apply (simp_all add: vol_simps)
  done

lemma set_power_vol_inv: "vol_inv s \<Longrightarrow> vol_inv (fst (stereo_state_set_power e on s))"
  apply (simp add: stereo_state_set_power_def fst_acts)
  apply (intro conjI impI save_keeps_vol_inv)
  apply (simp_all add: vol_simps)
  done

lemma set_mode_vol_inv: "vol_inv s \<Longrightarrow> vol_inv (fst (stereo_state_set_mode e m s))"
  apply (simp add: stereo_state_set_mode_def fst_acts Let_def)
  apply (intro conjI impI save_keeps_vol_inv)
  apply (simp_all add: vol_simps)
  done

lemma auto_power_on_vol_inv:
  "vol_inv s \<Longrightarrow> vol_inv (fst (auto_power_on_if_off e t reason s))"
  apply (simp add: auto_power_on_if_off_def fst_acts Let_def)
  apply (intro conjI impI save_keeps_vol_inv)
  apply (simp_all add: vol_simps)
  done

lemma streaming_vol_inv: "vol_inv s \<Longrightarrow> vol_inv (fst (stereo_state_a2dp_streaming e b s))"
  apply (simp add: stereo_state_a2dp_streaming_def fst_acts)
  apply (intro conjI impI auto_power_on_vol_inv)
  apply (simp_all add: vol_simps)
  done

lemma call_status_vol_inv:
  "vol_inv s \<Longrightarrow> vol_inv (fst (stereo_state_hfp_call_status e a c s))"
  apply (simp add: stereo_state_hfp_call_status_def fst_acts)
  apply (intro conjI impI save_keeps_vol_inv auto_power_on_vol_inv)
  apply (simp_all add: vol_simps)
  done

lemma bt_volume_vol_inv:
  "vol_inv s \<Longrightarrow> v \<le> 15 \<Longrightarrow> vol_inv (fst (on_bt_volume_changed t v s))"
  by (cases t) (simp_all add: on_bt_volume_changed_def fst_acts vol_simps)

lemma boot_vol_inv: "vol_inv s \<Longrightarrow> vol_inv (boot (nvs s))"
  by (simp add: boot_def vol_simps device_volumes_ok_def)

lemma fresh_vol_inv: "vol_inv (boot nvs_empty)"
  by (simp add: boot_def nvs_empty_def vol_simps store_codes_ok_def device_volumes_ok_def
        stored_device_ok_def)

lemma load_vol_inv:
  "vol_inv s \<Longrightarrow> \<exists>s'. load_from_nvs e s = Some s' \<and> vol_inv s'"
proof (cases "nvs_open_ok e")
  case False
  assume "vol_inv s"
  with False show ?thesis
    by (simp add: load_from_nvs_def vol_simps)
next
  case True
  assume inv: "vol_inv s"
  obtain m where m: "(case nvs_mode (nvs s) of None \<Rightarrow> Some (g_current_mode s)
                | Some c \<Rightarrow> mode_of_code c) = Some m"
    using inv by (cases "nvs_mode (nvs s)") (auto simp add: vol_inv_def store_codes_ok_def)
  obtain b where b: "(case nvs_radio_band (nvs s) of None \<Rightarrow> Some None
                | Some c \<Rightarrow> map_option Some (band_of_code c)) = Some b"
    using inv by (cases "nvs_radio_band (nvs s)") (auto simp add: vol_inv_def store_codes_ok_def)
  have keep: "\<And>v old. stored_volume_ok v \<Longrightarrow> old \<le> 15 \<Longrightarrow> or_keep v old \<le> 15"
    by (simp add: stored_volume_ok_def or_keep_def split: option.splits)
  show ?thesis
    using inv
    by (simp add: load_from_nvs_def True m b vol_inv_def volumes_in_range_def keep)
qed

lemma init_vol_inv:
  "vol_inv s \<Longrightarrow> \<exists>s' fx. stereo_state_init e c s = Some (s', fx) \<and> vol_inv s'"
proof -
  assume inv: "vol_inv s"
  let ?s0 = "init_defaults (case c of Some c \<Rightarrow> s\<lparr>g_config := c\<rparr> | None \<Rightarrow> s)"
  have "vol_inv ?s0"
    using inv
    by (cases c) (simp_all add: init_defaults_def vol_simps)
  then obtain s1 where s1: "load_from_nvs e ?s0 = Some s1" and inv1: "vol_inv s1"
    using load_vol_inv by blast
  let ?r = "do_all [
         load_bt_device_settings e,
         (\<lambda>s. emit [Audio (Bt_volume_control_init (a2dp_volume (g_a2dp_state s))
                  (speaker_volume (g_hfp_state s)) (mic_volume (g_hfp_state s)))] s),
         (\<lambda>s. if g_powered_on s \<and> g_current_mode s = MODE_RADIO then
                 send_display_notification DISPLAY_MODE_CHANGE (Text ''Radio'') None 2000 100 s
               else if \<not> g_powered_on s then
                 modify (\<lambda>s. s\<lparr>g_current_mode := MODE_OFF\<rparr>) s
               else (s, []))] s1"
  have eq: "stereo_state_init e c s = Some ?r"
    by (simp add: stereo_state_init_def s1)
  have "vol_inv (fst ?r)"
    using load_bt_vol_inv [OF inv1, of e] by (simp add: fst_acts vol_simps)
  then show ?thesis
    unfolding eq by (rule Some_pairI)
qed

lemma react_vol_inv:
  "vol_inv s \<Longrightarrow> volume_notification_ok x \<Longrightarrow>
   \<exists>s' fx. react e x s = Some (s', fx) \<and> vol_inv s'"
proof (cases x)
  case Restart
  assume "vol_inv s"
  with Restart show ?thesis by (simp add: boot_vol_inv)
next
  case (Call_init c)
  assume "vol_inv s"
  with Call_init show ?thesis using init_vol_inv [of s e c] by simp
next
  case (Call_handle_button ev)
  assume "vol_inv s"
  then show ?thesis
    unfolding Call_handle_button react.simps
    by (intro Some_pairI handle_button_vol_inv)
next
  case (Call_set_power on)
  assume "vol_inv s"
  then show ?thesis
    unfolding Call_set_power react.simps
    by (intro Some_pairI set_power_vol_inv)
next
  case (Call_set_mode m)
  assume "vol_inv s"
  then show ?thesis
    unfolding Call_set_mode react.simps
    by (intro Some_pairI set_mode_vol_inv)
next
  case (Call_hfp_call_status a c)
  assume "vol_inv s"
  then show ?thesis
    unfolding Call_hfp_call_status react.simps
    by (intro Some_pairI call_status_vol_inv)
next
  case (Call_a2dp_streaming b)
  assume "vol_inv s"
  then show ?thesis
    unfolding Call_a2dp_streaming react.simps
    by (intro Some_pairI streaming_vol_inv)
next
  case Tune_timer_expires
  assume inv: "vol_inv s"
  show ?thesis
    unfolding Tune_timer_expires react.simps
  proof (rule Some_pairI)
    show "vol_inv (fst (if g_station_tune_timer s then station_tune_timer_callback e s else (s, [])))"
      using inv timer_vol_inv [OF inv, of e] by simp
  qed
next
  case (Bt_volume_changed t v)
  assume "vol_inv s" "volume_notification_ok x"
  then show ?thesis
    unfolding Bt_volume_changed react.simps volume_notification_ok.simps
    by (intro Some_pairI bt_volume_vol_inv)
next
  case (Call_bt_device_connected a)
  assume "vol_inv s"
  then show ?thesis
    unfolding Call_bt_device_connected react.simps
    by (intro Some_pairI bt_connected_vol_inv)
next
  case (Call_bt_device_disconnected a)
  assume "vol_inv s"
  then show ?thesis
    unfolding Call_bt_device_disconnected react.simps
    by (intro Some_pairI bt_disconnected_vol_inv)
next
  case Call_save
  assume "vol_inv s"
  then show ?thesis
    unfolding Call_save react.simps stereo_state_save_def
    by (intro Some_pairI save_keeps_vol_inv)
qed

lemma run_vol_inv:
  "vol_inv s \<Longrightarrow> list_all (\<lambda>(e, x). volume_notification_ok x) xs \<Longrightarrow>
   \<exists>s'. run s xs = Some s' \<and> vol_inv s'"
proof (induction xs arbitrary: s)
  case Nil
  then show ?case by simp
next
  case (Cons ex xs)
  obtain e x where ex: "ex = (e, x)" by (cases ex)
  with Cons.prems have nx: "volume_notification_ok x"
    and rest: "list_all (\<lambda>(e, x). volume_notification_ok x) xs"
    by simp_all
  from react_vol_inv [OF Cons.prems(1) nx]
  obtain s1 fx where r: "react e x s = Some (s1, fx)" and inv1: "vol_inv s1"
    by blast
  from Cons.IH [OF inv1 rest] obtain s' where "run s1 xs = Some s'" and "vol_inv s'"
    by blast
  with ex r show ?case by simp
qed

lemma rotate_cw_keeps_top:
  "radio_volume (g_radio_state s) = 15 \<Longrightarrow>
   radio_volume (g_radio_state (fst (stereo_state_handle_button e rotate_cw s))) = 15"
  "a2dp_volume (g_a2dp_state s) = 15 \<Longrightarrow>
   a2dp_volume (g_a2dp_state (fst (stereo_state_handle_button e rotate_cw s))) = 15"
  by (auto simp add: stereo_state_handle_button_def rotate_cw_def mk_event_def
        handle_radio_mode_def handle_bluetooth_mode_def handle_phone_call_mode_def
        handle_phonebook_mode_def browse_step_def radio_volume_step_def a2dp_volume_step_def
        call_volume_step_def fst_acts save_to_nvs_def vol_up_top
        split: stereo_mode.splits)

text \<open>
  The paths that test the bounds, and the loads of what they saved, keep the range. Start
  from a first boot with an empty store and let anything happen (restarts, initialisation
  with its loads from the store, button events with rotations and repeats, power, mode,
  call and streaming calls, devices connecting and disconnecting, saves, the tune timer),
  with volume notifications from the audio stack that carry values up to 15. Then every
  operation returns and all four volumes are at most 15 in the state reached. And from
  any state, a radio or A2DP volume that is 15 is still 15 after three clockwise rotations.
\<close>

lemma bounded_paths_keep_volumes:
  "(list_all (\<lambda>(e, x). volume_notification_ok x) xs \<longrightarrow>
      (\<exists>s. run (boot nvs_empty) xs = Some s \<and> volumes_in_range s)) \<and>
   (radio_volume (g_radio_state t) = 15 \<longrightarrow>
      radio_volume (g_radio_state
        (fst (stereo_state_handle_button e3 rotate_cw
          (fst (stereo_state_handle_button e2 rotate_cw
            (fst (stereo_state_handle_button e1 rotate_cw t))))))) = 15) \<and>
   (a2dp_volume (g_a2dp_state t) = 15 \<longrightarrow>
      a2dp_volume (g_a2dp_state
        (fst (stereo_state_handle_button e3 rotate_cw
          (fst (stereo_state_handle_button e2 rotate_cw
            (fst (stereo_state_handle_button e1 rotate_cw t))))))) = 15)"
  using run_vol_inv [OF fresh_vol_inv, of xs]
  by (auto simp add: vol_inv_def rotate_cw_keeps_top)

text \<open>
  Initialisation takes the four volumes from the store as they are, whatever the bytes.
\<close>

lemma init_restores_stored_volumes:
  "nvs_open_ok e \<Longrightarrow> store_codes_ok (nvs s) \<Longrightarrow>
   nvs_radio_vol (nvs s) = Some r \<Longrightarrow> nvs_a2dp_vol (nvs s) = Some a \<Longrightarrow>
   nvs_hfp_spk_vol (nvs s) = Some k \<Longrightarrow> nvs_hfp_mic_vol (nvs s) = Some m \<Longrightarrow>
   \<exists>s' fx. stereo_state_init e c s = Some (s', fx) \<and>
     radio_volume (g_radio_state s') = r \<and> a2dp_volume (g_a2dp_state s') = a \<and>
     speaker_volume (g_hfp_state s') = k \<and> mic_volume (g_hfp_state s') = m"
proof -
  assume ok: "nvs_open_ok e" and codes: "store_codes_ok (nvs s)"
    and r: "nvs_radio_vol (nvs s) = Some r" and a: "nvs_a2dp_vol (nvs s) = Some a"
    and k: "nvs_hfp_spk_vol (nvs s) = Some k" and m: "nvs_hfp_mic_vol (nvs s) = Some m"
  let ?s0 = "init_defaults (case c of Some c \<Rightarrow> s\<lparr>g_config := c\<rparr> | None \<Rightarrow> s)"
  have st: "nvs ?s0 = nvs s"
    by (cases c) (simp_all add: init_defaults_def)
  obtain md where md: "(case nvs_mode (nvs s) of None \<Rightarrow> Some (g_current_mode ?s0)
                | Some c \<Rightarrow> mode_of_code c) = Some md"
    using codes by (cases "nvs_mode (nvs s)") (auto simp add: store_codes_ok_def)
  obtain b where b: "(case nvs_radio_band (nvs s) of None \<Rightarrow> Some None
                | Some c \<Rightarrow> map_option Some (band_of_code c)) = Some b"
    using codes by (cases "nvs_radio_band (nvs s)") (auto simp add: store_codes_ok_def)
  obtain s1 where s1: "load_from_nvs e ?s0 = Some s1"
    and v1: "radio_volume (g_radio_state s1) = r \<and> a2dp_volume (g_a2dp_state s1) = a \<and>
             speaker_volume (g_hfp_state s1) = k \<and> mic_volume (g_hfp_state s1) = m"
    by (simp add: load_from_nvs_def ok st md b r a k m or_keep_def)
  let ?r = "do_all [
         load_bt_device_settings e,
         (\<lambda>s. emit [Audio (Bt_volume_control_init (a2dp_volume (g_a2dp_state s))
                  (speaker_volume (g_hfp_state s)) (mic_volume (g_hfp_state s)))] s),
         (\<lambda>s. if g_powered_on s \<and> g_current_mode s = MODE_RADIO then
                 send_display_notification DISPLAY_MODE_CHANGE (Text ''Radio'') None 2000 100 s
               else if \<not> g_powered_on s then
                 modify (\<lambda>s. s\<lparr>g_current_mode := MODE_OFF\<rparr>) s
               else (s, []))] s1"
  have eq: "stereo_state_init e c s = Some ?r"
    by (simp add: stereo_state_init_def s1)
  obtain d where d: "fst (load_bt_device_settings e s1) = s1\<lparr>g_bt_devices := d\<rparr>"
    using load_bt_frame by blast
  have "radio_volume (g_radio_state (fst ?r)) = r \<and> a2dp_volume (g_a2dp_state (fst ?r)) = a \<and>
        speaker_volume (g_hfp_state (fst ?r)) = k \<and> mic_volume (g_hfp_state (fst ?r)) = m"
    using v1 by (simp add: fst_acts d)
  then show ?thesis
    unfolding eq by (rule Some_pairI)
qed

text \<open>
  Claim C5 does not hold of the code. The header gives 0 to 15 as the range of each volume,
  and rotations and repeats step a volume only inside it, but \<^verbatim>\<open>on_bt_volume_changed\<close>
  stores the byte the audio stack reports without looking at it. After initialisation, a
  notification that carries 200 for the A2DP target leaves the A2DP volume at 200.
\<close>

theorem volume_notification_not_clamped:
  "\<exists>s. run (boot nvs_empty)
        [(ok_env, Call_init (Some full_config)),
         (ok_env, Bt_volume_changed BT_VOLUME_TARGET_A2DP 200)] = Some s \<and>
      a2dp_volume (g_a2dp_state s) = 200 \<and> \<not> volumes_in_range s"
proof -
  have "map_option (\<lambda>s. a2dp_volume (g_a2dp_state s))
     (run (boot nvs_empty)
        [(ok_env, Call_init (Some full_config)),
         (ok_env, Bt_volume_changed BT_VOLUME_TARGET_A2DP 200)])
   = Some 200"
    by code_simp
  then show ?thesis
    by (auto simp add: volumes_in_range_def)
qed

text \<open>
  The byte then travels on: the device that disconnects takes it into the device table and
  the store, and when the same device connects after a restart and an initialisation, the
  A2DP volume is 200 again.
\<close>

lemma unclamped_volume_returns_from_device_table:
  "map_option (\<lambda>s. (a2dp_volume (g_a2dp_state s), speaker_volume (g_hfp_state s),
       mic_volume (g_hfp_state s), volumes_in_range s))
     (run (boot nvs_empty)
        [(ok_env, Call_init (Some full_config)),
         (ok_env, Bt_volume_changed BT_VOLUME_TARGET_A2DP 200),
         (ok_env, Call_bt_device_disconnected (Some [1, 2, 3, 4, 5, 6])),
         (ok_env, Restart),
         (ok_env, Call_init (Some full_config)),
         (ok_env, Call_bt_device_connected (Some [1, 2, 3, 4, 5, 6]))])
   = Some (200, 12, 10, False)"
  by code_simp


subsection \<open>Station browsing\<close>

lemma run_append:
  "run s (xs @ ys) = (case run s xs of None \<Rightarrow> None | Some s1 \<Rightarrow> run s1 ys)"
  by (induction xs arbitrary: s) (auto split: option.splits)

lemma run_Cons_fst:
  "run s ((e, x) # xs) = (case react e x s of None \<Rightarrow> None | Some r \<Rightarrow> run (fst r) xs)"
  by (auto split: option.splits)

lemma browse_rotation:
  "g_current_mode s = MODE_RADIO \<Longrightarrow> g_browsing_stations s \<Longrightarrow> is_rotation ev \<Longrightarrow>
   g_current_mode (fst (stereo_state_handle_button e ev s)) = MODE_RADIO \<and>
   g_browsing_stations (fst (stereo_state_handle_button e ev s)) \<and>
   g_station_tune_timer (fst (stereo_state_handle_button e ev s)) \<and>
   frequency (g_radio_state (fst (stereo_state_handle_button e ev s))) = frequency (g_radio_state s)"
  by (auto simp add: is_rotation_def stereo_state_handle_button_def handle_radio_mode_def
        browse_step_def fst_acts)

lemma browse_rotations:
  "g_current_mode s = MODE_RADIO \<Longrightarrow> g_browsing_stations s \<Longrightarrow> list_all is_rotation rots \<Longrightarrow>
   \<exists>s1. run s (presses e rots) = Some s1 \<and> g_current_mode s1 = MODE_RADIO \<and>
        g_browsing_stations s1 \<and> (rots \<noteq> [] \<longrightarrow> g_station_tune_timer s1) \<and>
        frequency (g_radio_state s1) = frequency (g_radio_state s)"
proof (induction rots arbitrary: s)
  case Nil
  then show ?case by (simp add: presses_def)
next
  case (Cons ev rots)
  let ?s1 = "fst (stereo_state_handle_button e ev s)"
  from Cons.prems have ev: "is_rotation ev" and rest: "list_all is_rotation rots"
    by simp_all
  note step = browse_rotation [OF Cons.prems(1) Cons.prems(2) ev, of e]
  from Cons.IH [of ?s1] step rest
  obtain s2 where run2: "run ?s1 (presses e rots) = Some s2"
    and m2: "g_current_mode s2 = MODE_RADIO" and b2: "g_browsing_stations s2"
    and t2: "rots \<noteq> [] \<longrightarrow> g_station_tune_timer s2"
    and f2: "frequency (g_radio_state s2) = frequency (g_radio_state ?s1)"
    by blast
  have timer: "g_station_tune_timer s2"
  proof (cases rots)
    case Nil
    with run2 step show ?thesis by (simp add: presses_def)
  next
    case (Cons a list)
    with t2 show ?thesis by simp
  qed
  have "run s (presses e (ev # rots)) = Some s2"
    using run2 by (simp add: presses_def run_Cons_fst del: run.simps)
  with m2 b2 timer f2 step show ?case by simp
qed

lemma browse_toggle_on:
  "g_current_mode s = MODE_RADIO \<Longrightarrow> \<not> g_browsing_stations s \<Longrightarrow>
   g_current_mode (fst (stereo_state_handle_button e release_rotary s)) = MODE_RADIO \<and>
   g_browsing_stations (fst (stereo_state_handle_button e release_rotary s)) \<and>
   frequency (g_radio_state (fst (stereo_state_handle_button e release_rotary s))) =
     frequency (g_radio_state s)"
  by (simp add: release_rotary_def mk_event_def stereo_state_handle_button_def
        handle_radio_mode_def fst_acts)

lemma browse_toggle_off:
  "g_current_mode s = MODE_RADIO \<Longrightarrow> g_browsing_stations s \<Longrightarrow>
   \<not> g_browsing_stations (fst (stereo_state_handle_button e release_rotary s)) \<and>
   g_station_tune_timer (fst (stereo_state_handle_button e release_rotary s)) =
     g_station_tune_timer s \<and>
   frequency (g_radio_state (fst (stereo_state_handle_button e release_rotary s))) =
     frequency (g_radio_state s)"
  by (simp add: release_rotary_def mk_event_def stereo_state_handle_button_def
        handle_radio_mode_def fst_acts)

lemma timer_without_browsing:
  "\<not> g_browsing_stations s \<Longrightarrow>
   station_tune_timer_callback e s = (s\<lparr>g_station_tune_timer := False\<rparr>, [])"
  by (simp add: station_tune_timer_callback_def do_all_Cons fst_modify snd_modify)

lemma timer_commits_while_browsing:
  "g_browsing_stations s \<Longrightarrow>
   frequency (g_radio_state (fst (station_tune_timer_callback e s))) = g_browsing_station_freq s"
  by (simp add: station_tune_timer_callback_def fst_acts save_to_nvs_def)

lemma timer_expiry_without_browsing:
  "\<not> g_browsing_stations s \<Longrightarrow>
   react e Tune_timer_expires s = Some (s\<lparr>g_station_tune_timer := False\<rparr>, [])"
  by (cases "g_station_tune_timer s") (simp_all add: timer_without_browsing)

text \<open>
  Claim C7. In Radio mode with browsing off: the encoder button is released (browsing
  starts), any rotations follow (three clockwise ones, say), and the button is released
  again (browsing stops) before the timer expires. Then browsing is off, a timer task is
  still pending if there was a rotation, the tuned frequency is the one from before, and
  the expiry of the timer does nothing but clear the timer handle: the callback finds
  \<^verbatim>\<open>g_browsing_stations\<close> false, so it tunes, displays and saves nothing.
\<close>

theorem cancelled_browse_keeps_frequency:
  "g_current_mode s = MODE_RADIO \<Longrightarrow> \<not> g_browsing_stations s \<Longrightarrow>
   list_all is_rotation rots \<Longrightarrow>
   \<exists>s1. run s (presses e ([release_rotary] @ rots @ [release_rotary])) = Some s1 \<and>
        \<not> g_browsing_stations s1 \<and> (rots \<noteq> [] \<longrightarrow> g_station_tune_timer s1) \<and>
        frequency (g_radio_state s1) = frequency (g_radio_state s) \<and>
        react e' Tune_timer_expires s1 = Some (s1\<lparr>g_station_tune_timer := False\<rparr>, [])"
proof -
  assume radio: "g_current_mode s = MODE_RADIO" and idle: "\<not> g_browsing_stations s"
    and rots: "list_all is_rotation rots"
  let ?a = "fst (stereo_state_handle_button e release_rotary s)"
  note on = browse_toggle_on [OF radio idle, of e]
  from browse_rotations [of ?a rots e] on rots
  obtain b where runb: "run ?a (presses e rots) = Some b"
    and mb: "g_current_mode b = MODE_RADIO" and bb: "g_browsing_stations b"
    and tb: "rots \<noteq> [] \<longrightarrow> g_station_tune_timer b"
    and fb: "frequency (g_radio_state b) = frequency (g_radio_state ?a)"
    by blast
  let ?c = "fst (stereo_state_handle_button e release_rotary b)"
  note off = browse_toggle_off [OF mb bb, of e]
  have run1: "run s (presses e ([release_rotary] @ rots @ [release_rotary])) = Some ?c"
    using runb by (simp add: presses_def run_append run_Cons_fst del: run.simps(2))
  have fin: "react e' Tune_timer_expires ?c = Some (?c\<lparr>g_station_tune_timer := False\<rparr>, [])"
    using off by (intro timer_expiry_without_browsing) simp
  from run1 fin off on fb tb show ?thesis by simp
qed

text \<open>
  The example of the specification after power on from a fresh boot: three clockwise
  rotations while browsing, then browsing is switched off and the timer expires.
\<close>

theorem cancelled_browse_keeps_frequency_witness:
  "g_current_mode (fst (stereo_state_handle_button ok_env
      (mk_event BTN_ROTARY BTN_EVENT_PRESS) (boot nvs_empty))) = MODE_RADIO \<and>
   \<not> g_browsing_stations (fst (stereo_state_handle_button ok_env
      (mk_event BTN_ROTARY BTN_EVENT_PRESS) (boot nvs_empty))) \<and>
   list_all is_rotation [rotate_cw, rotate_cw, rotate_cw] \<and>
   (\<exists>s1. run (fst (stereo_state_handle_button ok_env
          (mk_event BTN_ROTARY BTN_EVENT_PRESS) (boot nvs_empty)))
        (presses ok_env ([release_rotary] @ [rotate_cw, rotate_cw, rotate_cw] @ [release_rotary]))
        = Some s1 \<and>
      \<not> g_browsing_stations s1 \<and> g_station_tune_timer s1 \<and>
      frequency (g_radio_state s1) = frequency (g_radio_state (fst (stereo_state_handle_button
        ok_env (mk_event BTN_ROTARY BTN_EVENT_PRESS) (boot nvs_empty)))) \<and>
      react ok_env Tune_timer_expires s1 = Some (s1\<lparr>g_station_tune_timer := False\<rparr>, []))"
proof -
  let ?s = "fst (stereo_state_handle_button ok_env
      (mk_event BTN_ROTARY BTN_EVENT_PRESS) (boot nvs_empty))"
  have h1: "g_current_mode ?s = MODE_RADIO"
    by (simp add: stereo_state_handle_button_def mk_event_def boot_def fst_acts save_frame)
  have h2: "\<not> g_browsing_stations ?s"
    by (simp add: stereo_state_handle_button_def mk_event_def boot_def fst_acts save_to_nvs_def)
  have h3: "list_all is_rotation [rotate_cw, rotate_cw, rotate_cw]"
    by (simp add: is_rotation_def rotate_cw_def mk_event_def)
  from cancelled_browse_keeps_frequency [OF h1 h2 h3, of ok_env ok_env] h1 h2 h3
  show ?thesis by auto
qed

end
